theory Spec2Isabelle
  imports Main "HOL-Library.Word"
begin

unbundle bit_operations_syntax

section \<open>Data model\<close>

text \<open>
  The elements of a Python \<^verbatim>\<open>bytes\<close> object are integers in 0..255; they are modelled
  as 8-bit words. Every cell of the cipher's state and of the key schedule is such a
  value: it is read from a \<^verbatim>\<open>bytes\<close> object, looked up in \<^verbatim>\<open>SBOX\<close>, or the XOR of two
  such values. Unbounded Python integers (algorithm ids, thresholds, iteration counts) are
  modelled as \<open>int\<close>.
\<close>

type_synonym byte = "8 word"

text \<open>
  Every failure of the library is a \<^verbatim>\<open>ValueError\<close>, told apart by its message only; each
  raise site gets a constructor of its own:
  \<^item> \<open>BlobTooShort\<close>: "Password blob too short; expect prefix plus 60 chars";
  \<^item> \<open>UnsupportedPrefix\<close>: "Unsupported password prefix (expected '01' or '03')";
  \<^item> \<open>PayloadLengthInvalid\<close>: "Password payload must be exactly 60 Base64 characters";
  \<^item> \<open>Base64Invalid\<close>: the error raised inside \<^verbatim>\<open>base64.b64decode(payload, validate=True)\<close>
    (\<^verbatim>\<open>binascii.Error\<close>, a subclass of \<^verbatim>\<open>ValueError\<close>, or the \<^verbatim>\<open>ValueError\<close> for a string
    that is not ASCII);
  \<^item> \<open>DecodedLengthInvalid\<close>: "Decoded payload must be 44 bytes";
  \<^item> \<open>AuthenticityError\<close>: "Digest mismatch - blob is not authentic";
  \<^item> \<open>AlgorithmMismatch\<close>: "Algorithm mismatch: blob expects ..., got ...";
  \<^item> \<open>InvalidSeedLength\<close>: "Seed must be exactly 5 bytes";
  \<^item> \<open>SeedRejected\<close>: "Seed is not allowed by the blob's min_seed constraint";
  \<^item> \<open>UnknownAlgorithm\<close>: "No password blob registered for algorithm ...";
  \<^item> \<open>InvalidKeyLength\<close>: "AES-128 key must be 16 bytes long";
  \<^item> \<open>InvalidBlockLength\<close>: "AES block must be 16 bytes".
\<close>

datatype error =
    BlobTooShort
  | UnsupportedPrefix
  | PayloadLengthInvalid
  | Base64Invalid
  | DecodedLengthInvalid
  | AuthenticityError
  | AlgorithmMismatch
  | InvalidSeedLength
  | SeedRejected
  | UnknownAlgorithm
  | InvalidKeyLength
  | InvalidBlockLength

record PasswordRecord =
  secret :: "byte list"
  min_seed :: int
  algo_id :: int

section \<open>Library functions the code calls\<close>

subsection \<open>\<^verbatim>\<open>hashlib.sha256(data).digest()\<close>\<close>

text \<open>
  SHA-256 as FIPS 180-4 defines it, on byte strings: padding to a multiple of 64 bytes,
  the message schedule of 64 words per block, 64 rounds of the compression function, and
  the eight chaining words written out big-endian.
\<close>

type_synonym word32 = "32 word"

type_synonym sha256_state =
  "word32 \<times> word32 \<times> word32 \<times> word32 \<times> word32 \<times> word32 \<times> word32 \<times> word32"

definition rotr :: "nat \<Rightarrow> word32 \<Rightarrow> word32" where
  "rotr n x = drop_bit n x OR push_bit (32 - n) x"

definition Ch :: "word32 \<Rightarrow> word32 \<Rightarrow> word32 \<Rightarrow> word32" where
  "Ch x y z = (x AND y) XOR (NOT x AND z)"

definition Maj :: "word32 \<Rightarrow> word32 \<Rightarrow> word32 \<Rightarrow> word32" where
  "Maj x y z = (x AND y) XOR (x AND z) XOR (y AND z)"

definition bsig0 :: "word32 \<Rightarrow> word32" where
  "bsig0 x = rotr 2 x XOR rotr 13 x XOR rotr 22 x"

definition bsig1 :: "word32 \<Rightarrow> word32" where
  "bsig1 x = rotr 6 x XOR rotr 11 x XOR rotr 25 x"

definition ssig0 :: "word32 \<Rightarrow> word32" where
  "ssig0 x = rotr 7 x XOR rotr 18 x XOR drop_bit 3 x"

definition ssig1 :: "word32 \<Rightarrow> word32" where
  "ssig1 x = rotr 17 x XOR rotr 19 x XOR drop_bit 10 x"

definition sha256_K :: "word32 list" where
  "sha256_K = [
     0x428A2F98, 0x71374491, 0xB5C0FBCF, 0xE9B5DBA5, 0x3956C25B, 0x59F111F1,
     0x923F82A4, 0xAB1C5ED5, 0xD807AA98, 0x12835B01, 0x243185BE, 0x550C7DC3,
     0x72BE5D74, 0x80DEB1FE, 0x9BDC06A7, 0xC19BF174, 0xE49B69C1, 0xEFBE4786,
     0x0FC19DC6, 0x240CA1CC, 0x2DE92C6F, 0x4A7484AA, 0x5CB0A9DC, 0x76F988DA,
     0x983E5152, 0xA831C66D, 0xB00327C8, 0xBF597FC7, 0xC6E00BF3, 0xD5A79147,
     0x06CA6351, 0x14292967, 0x27B70A85, 0x2E1B2138, 0x4D2C6DFC, 0x53380D13,
     0x650A7354, 0x766A0ABB, 0x81C2C92E, 0x92722C85, 0xA2BFE8A1, 0xA81A664B,
     0xC24B8B70, 0xC76C51A3, 0xD192E819, 0xD6990624, 0xF40E3585, 0x106AA070,
     0x19A4C116, 0x1E376C08, 0x2748774C, 0x34B0BCB5, 0x391C0CB3, 0x4ED8AA4A,
     0x5B9CCA4F, 0x682E6FF3, 0x748F82EE, 0x78A5636F, 0x84C87814, 0x8CC70208,
     0x90BEFFFA, 0xA4506CEB, 0xBEF9A3F7, 0xC67178F2
  ]"

definition sha256_H0 :: sha256_state where
  "sha256_H0 =
    (0x6A09E667, 0xBB67AE85, 0x3C6EF372, 0xA54FF53A,
     0x510E527F, 0x9B05688C, 0x1F83D9AB, 0x5BE0CD19)"

text \<open>Big-endian conversions.\<close>

definition be32 :: "byte list \<Rightarrow> word32" where
  "be32 bs = foldl (\<lambda>acc b. push_bit 8 acc OR ucast b) 0 bs"

definition word32_bytes :: "word32 \<Rightarrow> byte list" where
  "word32_bytes w = [ucast (drop_bit 24 w), ucast (drop_bit 16 w), ucast (drop_bit 8 w), ucast w]"

definition length_bytes :: "nat \<Rightarrow> byte list" where
  "length_bytes n = map (\<lambda>i. of_nat (n div 256 ^ (7 - i))) [0..<8]"

text \<open>The message, the byte 0x80, zero bytes up to 56 modulo 64, and the length in bits
  as 8 bytes.\<close>

definition sha256_pad :: "byte list \<Rightarrow> byte list" where
  "sha256_pad msg =
     msg @ [0x80] @ replicate ((119 - length msg mod 64) mod 64) 0 @ length_bytes (8 * length msg)"

text \<open>The 16 words of a 64-byte block.\<close>

fun block_words :: "nat \<Rightarrow> byte list \<Rightarrow> word32 list" where
  "block_words 0 bs = []"
| "block_words (Suc n) bs = be32 (take 4 bs) # block_words n (drop 4 bs)"

text \<open>The message schedule, produced from a window of the 16 latest words: the next
  word is \<open>ssig1 W[t-2] + W[t-7] + ssig0 W[t-15] + W[t-16]\<close>.\<close>

fun schedule :: "nat \<Rightarrow> word32 list \<Rightarrow> word32 list" where
  "schedule 0 win = []"
| "schedule (Suc n) win =
     hd win # schedule n
       (tl win @ [ssig1 (win ! 14) + win ! 9 + ssig0 (win ! 1) + win ! 0])"

fun sha256_round :: "word32 \<times> word32 \<Rightarrow> sha256_state \<Rightarrow> sha256_state" where
  "sha256_round (k, w) (a, b, c, d, e, f, g, h) =
     (let t1 = h + bsig1 e + Ch e f g + k + w;
          t2 = bsig0 a + Maj a b c
      in (t1 + t2, a, b, c, d + t1, e, f, g))"

fun add_state :: "sha256_state \<Rightarrow> sha256_state \<Rightarrow> sha256_state" where
  "add_state (a, b, c, d, e, f, g, h) (a', b', c', d', e', f', g', h') =
     (a + a', b + b', c + c', d + d', e + e', f + f', g + g', h + h')"

definition sha256_compress :: "sha256_state \<Rightarrow> byte list \<Rightarrow> sha256_state" where
  "sha256_compress H block =
     add_state H (fold sha256_round (zip sha256_K (schedule 64 (block_words 16 block))) H)"

text \<open>The loop over the 64-byte blocks of the padded message; \<open>n\<close> is their number.\<close>

fun sha256_blocks :: "nat \<Rightarrow> sha256_state \<Rightarrow> byte list \<Rightarrow> sha256_state" where
  "sha256_blocks 0 H bs = H"
| "sha256_blocks (Suc n) H bs = sha256_blocks n (sha256_compress H (take 64 bs)) (drop 64 bs)"

fun state_bytes :: "sha256_state \<Rightarrow> byte list" where
  "state_bytes (a, b, c, d, e, f, g, h) =
     concat (map word32_bytes [a, b, c, d, e, f, g, h])"

definition sha256 :: "byte list \<Rightarrow> byte list" where
  "sha256 msg =
     (let padded = sha256_pad msg
      in state_bytes (sha256_blocks (length padded div 64) sha256_H0 padded))"

subsection \<open>\<^verbatim>\<open>base64.b64decode(s, validate=True)\<close>\<close>

text \<open>
  With \<^verbatim>\<open>validate=True\<close> the decoder is CPython's \<^verbatim>\<open>binascii.a2b_base64\<close> in strict mode
  (Python 3.11): every failure is a \<^verbatim>\<open>binascii.Error\<close>, modelled as \<open>None\<close>.
  The loop reads the characters one by one and keeps the position in the current group
  of four (\<open>quad_pos\<close>), the bits left over from the previous character (\<open>leftchar\<close>), the
  number of padding characters seen in the current group (\<open>pads\<close>) and whether padding has
  started:
  \<^item> a \<^verbatim>\<open>=\<close> that completes a group of four ends the decoding, and data after it is an
    error ("Excess data after padding"); any other \<^verbatim>\<open>=\<close> is skipped;
  \<^item> a character outside the alphabet is an error ("Only base64 data is allowed"), also
    a character that is not ASCII;
  \<^item> an alphabet character after a \<^verbatim>\<open>=\<close> is an error ("Discontinuous padding not
    allowed");
  \<^item> at the end of the input an unfinished group is an error ("Incorrect padding");
  \<^item> an input that starts with \<^verbatim>\<open>=\<close> is an error ("Leading padding not allowed").
\<close>

definition b64_alphabet :: string where
  "b64_alphabet = ''ABCDEFGHIJKLMNOPQRSTUVWXYZabcdefghijklmnopqrstuvwxyz0123456789+/''"

fun index_of :: "'a \<Rightarrow> 'a list \<Rightarrow> nat option" where
  "index_of c [] = None"
| "index_of c (x # xs) =
     (if c = x then Some 0 else map_option Suc (index_of c xs))"

definition b64_value :: "char \<Rightarrow> nat option" where
  "b64_value c = index_of c b64_alphabet"

fun a2b_base64_loop ::
  "string \<Rightarrow> nat \<Rightarrow> nat \<Rightarrow> nat \<Rightarrow> bool \<Rightarrow> byte list \<Rightarrow> byte list option" where
  "a2b_base64_loop [] quad_pos leftchar pads padding_started out =
     (if quad_pos \<noteq> 0 then None else Some out)"
| "a2b_base64_loop (c # cs) quad_pos leftchar pads padding_started out =
     (if c = CHR ''='' then
        (if 2 \<le> quad_pos \<and> 4 \<le> quad_pos + (pads + 1)
         then (if cs \<noteq> [] then None else Some out)
         else a2b_base64_loop cs quad_pos leftchar
                (if 2 \<le> quad_pos then pads + 1 else pads) True out)
      else
        case b64_value c of
          None \<Rightarrow> None
        | Some v \<Rightarrow>
            if padding_started then None
            else if quad_pos = 0 then
              a2b_base64_loop cs 1 v 0 padding_started out
            else if quad_pos = 1 then
              a2b_base64_loop cs 2 (v mod 16) 0 padding_started
                (out @ [of_nat (leftchar * 4 + v div 16)])
            else if quad_pos = 2 then
              a2b_base64_loop cs 3 (v mod 4) 0 padding_started
                (out @ [of_nat (leftchar * 16 + v div 4)])
            else
              a2b_base64_loop cs 0 0 0 padding_started
                (out @ [of_nat (leftchar * 64 + v)]))"

definition b64decode :: "string \<Rightarrow> byte list option" where
  "b64decode s =
     (if s \<noteq> [] \<and> hd s = CHR ''='' then None
      else a2b_base64_loop s 0 0 0 False [])"

section \<open>AES-128\<close>

definition SBOX :: "byte list" where
  "SBOX = [
     0x63, 0x7C, 0x77, 0x7B, 0xF2, 0x6B, 0x6F, 0xC5,
     0x30, 0x01, 0x67, 0x2B, 0xFE, 0xD7, 0xAB, 0x76,
     0xCA, 0x82, 0xC9, 0x7D, 0xFA, 0x59, 0x47, 0xF0,
     0xAD, 0xD4, 0xA2, 0xAF, 0x9C, 0xA4, 0x72, 0xC0,
     0xB7, 0xFD, 0x93, 0x26, 0x36, 0x3F, 0xF7, 0xCC,
     0x34, 0xA5, 0xE5, 0xF1, 0x71, 0xD8, 0x31, 0x15,
     0x04, 0xC7, 0x23, 0xC3, 0x18, 0x96, 0x05, 0x9A,
     0x07, 0x12, 0x80, 0xE2, 0xEB, 0x27, 0xB2, 0x75,
     0x09, 0x83, 0x2C, 0x1A, 0x1B, 0x6E, 0x5A, 0xA0,
     0x52, 0x3B, 0xD6, 0xB3, 0x29, 0xE3, 0x2F, 0x84,
     0x53, 0xD1, 0x00, 0xED, 0x20, 0xFC, 0xB1, 0x5B,
     0x6A, 0xCB, 0xBE, 0x39, 0x4A, 0x4C, 0x58, 0xCF,
     0xD0, 0xEF, 0xAA, 0xFB, 0x43, 0x4D, 0x33, 0x85,
     0x45, 0xF9, 0x02, 0x7F, 0x50, 0x3C, 0x9F, 0xA8,
     0x51, 0xA3, 0x40, 0x8F, 0x92, 0x9D, 0x38, 0xF5,
     0xBC, 0xB6, 0xDA, 0x21, 0x10, 0xFF, 0xF3, 0xD2,
     0xCD, 0x0C, 0x13, 0xEC, 0x5F, 0x97, 0x44, 0x17,
     0xC4, 0xA7, 0x7E, 0x3D, 0x64, 0x5D, 0x19, 0x73,
     0x60, 0x81, 0x4F, 0xDC, 0x22, 0x2A, 0x90, 0x88,
     0x46, 0xEE, 0xB8, 0x14, 0xDE, 0x5E, 0x0B, 0xDB,
     0xE0, 0x32, 0x3A, 0x0A, 0x49, 0x06, 0x24, 0x5C,
     0xC2, 0xD3, 0xAC, 0x62, 0x91, 0x95, 0xE4, 0x79,
     0xE7, 0xC8, 0x37, 0x6D, 0x8D, 0xD5, 0x4E, 0xA9,
     0x6C, 0x56, 0xF4, 0xEA, 0x65, 0x7A, 0xAE, 0x08,
     0xBA, 0x78, 0x25, 0x2E, 0x1C, 0xA6, 0xB4, 0xC6,
     0xE8, 0xDD, 0x74, 0x1F, 0x4B, 0xBD, 0x8B, 0x8A,
     0x70, 0x3E, 0xB5, 0x66, 0x48, 0x03, 0xF6, 0x0E,
     0x61, 0x35, 0x57, 0xB9, 0x86, 0xC1, 0x1D, 0x9E,
     0xE1, 0xF8, 0x98, 0x11, 0x69, 0xD9, 0x8E, 0x94,
     0x9B, 0x1E, 0x87, 0xE9, 0xCE, 0x55, 0x28, 0xDF,
     0x8C, 0xA1, 0x89, 0x0D, 0xBF, 0xE6, 0x42, 0x68,
     0x41, 0x99, 0x2D, 0x0F, 0xB0, 0x54, 0xBB, 0x16
  ]"

definition RCON :: "byte list" where
  "RCON = [0x00, 0x01, 0x02, 0x04, 0x08, 0x10, 0x20, 0x40, 0x80, 0x1B, 0x36]"

text \<open>\<^verbatim>\<open>[[block[row + 4 * col] for col in range(4)] for row in range(4)]\<close>\<close>

definition bytes_to_state :: "byte list \<Rightarrow> byte list list" where
  "bytes_to_state block =
     map (\<lambda>row. map (\<lambda>col. block ! (row + 4 * col)) [0..<4]) [0..<4]"

text \<open>The two nested loops write \<^verbatim>\<open>out[row + 4 * col] = state[row][col]\<close> into a
  \<^verbatim>\<open>bytearray(16)\<close>.\<close>

definition state_to_bytes :: "byte list list \<Rightarrow> byte list" where
  "state_to_bytes state =
     fold (\<lambda>row out. fold (\<lambda>col out. out[row + 4 * col := state ! row ! col]) [0..<4] out)
       [0..<4] (replicate 16 0)"

text \<open>In-place update of the state: the updated state is returned.\<close>

definition sub_bytes :: "byte list list \<Rightarrow> byte list list" where
  "sub_bytes state =
     fold (\<lambda>row st. fold (\<lambda>col st.
             st[row := (st ! row)[col := SBOX ! unat (st ! row ! col)]]) [0..<4] st)
       [0..<4] state"

definition shift_rows :: "byte list list \<Rightarrow> byte list list" where
  "shift_rows state =
     fold (\<lambda>row st. st[row := drop row (st ! row) @ take row (st ! row)]) [1..<4] state"

text \<open>\<^verbatim>\<open>value <<= 1; if value & 0x100: value ^= 0x11B; return value & 0xFF\<close>, computed on
  the unbounded integer as the source does.\<close>

definition xtime :: "byte \<Rightarrow> byte" where
  "xtime v =
     (let v1 = push_bit 1 (uint v);
          v2 = (if v1 AND 0x100 \<noteq> 0 then v1 XOR 0x11B else v1)
      in word_of_int (v2 AND 0xFF))"

text \<open>The loop \<^verbatim>\<open>for _ in range(8)\<close> of \<^verbatim>\<open>gf_mul\<close>, with its three variables.\<close>

fun gf_mul_loop :: "nat \<Rightarrow> byte \<Rightarrow> byte \<Rightarrow> byte \<Rightarrow> byte" where
  "gf_mul_loop 0 a b result = result"
| "gf_mul_loop (Suc n) a b result =
     gf_mul_loop n (xtime a) (drop_bit 1 b) (if b AND 1 \<noteq> 0 then result XOR a else result)"

definition gf_mul :: "byte \<Rightarrow> byte \<Rightarrow> byte" where
  "gf_mul a b = gf_mul_loop 8 a b 0"

text \<open>\<^verbatim>\<open>a0, a1, a2, a3 = col\<close> raises for a column of another length; the only caller,
  \<^verbatim>\<open>mix_columns\<close>, builds the column from four cells, so the last equation is never used
  by the cipher.\<close>

fun mix_single_column :: "byte list \<Rightarrow> byte list" where
  "mix_single_column [a0, a1, a2, a3] =
     [gf_mul a0 2 XOR gf_mul a1 3 XOR a2 XOR a3,
      a0 XOR gf_mul a1 2 XOR gf_mul a2 3 XOR a3,
      a0 XOR a1 XOR gf_mul a2 2 XOR gf_mul a3 3,
      gf_mul a0 3 XOR a1 XOR a2 XOR gf_mul a3 2]"
| "mix_single_column col = col"

definition mix_columns :: "byte list list \<Rightarrow> byte list list" where
  "mix_columns state =
     fold (\<lambda>col st.
             let column = mix_single_column (map (\<lambda>row. st ! row ! col) [0..<4])
             in fold (\<lambda>row st. st[row := (st ! row)[col := column ! row]]) [0..<4] st)
       [0..<4] state"

definition add_round_key :: "byte list list \<Rightarrow> byte list \<Rightarrow> byte list list" where
  "add_round_key state round_key =
     fold (\<lambda>col st. fold (\<lambda>row st.
             st[row := (st ! row)[col := st ! row ! col XOR round_key ! (row + 4 * col)]])
             [0..<4] st)
       [0..<4] state"

definition rot_word :: "byte list \<Rightarrow> byte list" where
  "rot_word word = drop 1 word @ take 1 word"

definition sub_word :: "byte list \<Rightarrow> byte list" where
  "sub_word word = map (\<lambda>b. SBOX ! unat b) word"

text \<open>One pass of the loop \<^verbatim>\<open>for i in range(4, 44)\<close> of \<^verbatim>\<open>expand_key\<close>: it appends the
  word number \<open>i\<close>.\<close>

definition expand_key_step :: "nat \<Rightarrow> byte list list \<Rightarrow> byte list list" where
  "expand_key_step i words =
     (let temp = words ! (i - 1);
          temp = (if i mod 4 = 0
                  then (let t = sub_word (rot_word temp)
                        in t[0 := t ! 0 XOR RCON ! (i div 4)])
                  else temp);
          new_word = map (\<lambda>j. (words ! (i - 4) ! j XOR temp ! j) AND 0xFF) [0..<4]
      in words @ [new_word])"

definition expand_key :: "byte list \<Rightarrow> error + byte list list" where
  "expand_key key =
     (if length key \<noteq> 16 then Inl InvalidKeyLength
      else
        let words = map (\<lambda>i. take 4 (drop i key)) [0, 4, 8, 12];
            words = fold expand_key_step [4..<44] words
        in Inr (map (\<lambda>i. concat (map (\<lambda>j. words ! (i + j)) [0..<4]))
                  (map (\<lambda>k. 4 * k) [0..<11])))"

definition aes_encrypt_block :: "byte list \<Rightarrow> byte list \<Rightarrow> error + byte list" where
  "aes_encrypt_block key block =
     (if length block \<noteq> 16 then Inl InvalidBlockLength
      else case expand_key key of
        Inl e \<Rightarrow> Inl e
      | Inr round_keys \<Rightarrow>
          let state = bytes_to_state block;
              state = add_round_key state (round_keys ! 0);
              state = fold (\<lambda>rnd st.
                        add_round_key (mix_columns (shift_rows (sub_bytes st))) (round_keys ! rnd))
                        [1..<10] state;
              state = sub_bytes state;
              state = shift_rows state;
              state = add_round_key state (round_keys ! 10)
          in Inr (state_to_bytes state))"

section \<open>Blob codec, hash chain and derivation pipeline\<close>

text \<open>The table of the source, in its order: the initial value of the module's global
  dictionary.\<close>

definition PASSWORD_MAP :: "(int \<times> string) list" where
  "PASSWORD_MAP = [
     (0x00, ''01EgjpxczBk2pRSn6r/UfgIDriRFHxEtkT7dlcdQOpq2sA9QAAfP9QboFog6A=''),
     (0x01, ''0117qfOWmaS+aLoZhpXHhTMFDyTkw81sTKBPWQ1yjCF8EA9QABrH544gNgWsk=''),
     (0x02, ''01Qf3tZSjgbwVBQKHDLz9ULsn9nw750uoM0b9SMzV3LwAA9QACjCnULKmiTps=''),
     (0x03, ''01E9oqp4yP5VihNGPcQetsG1NKEs9nv/iTskE8KbIY72MA9QADsFYwilY9l4w=''),
     (0x04, ''01OPGDOr5wfow50t1CU7I3JicRmz2vvvaLEgT6Ebswc/sA9QAEo0HoWPLJ09M=''),
     (0x05, ''01prOb95CCkDacmrShpq/VIckn+Q/Fwj0G6R9thQa9htUA9QAFMw33N2G8CU0=''),
     (0x06, ''01qDmfPBEQuLaIVPR5ZfMa2rO95nrIxHxAPqvEQcgUhLQA9QAGcMUlBRPXGN8=''),
     (0x07, ''01KYKG18R3D11hGjiwKyQDvYx5ficqkWEG6jK64tN66lQA9QAHKMlYGNIrD10=''),
     (0x08, ''019v8cUcVxkxyKbRrGWtiAsT6pBvBLU8N2wU7cow6ArHQA9QAICShM+47PPPw=''),
     (0x09, ''01QNMDCn/jgSWzItILtWJfcvtUTJwQfF2wkb7017CdG9wA9QAJD1I90eUmcCk=''),
     (0x0A, ''01iJiF+TSGW7dW6xvhFLuZS6B2YXFrMD/t5MjJJawuuRMA9QAKacYEn6g4J+Y=''),
     (0x0B, ''01UMceMrYqtcbENupWRz7yznnS+Xn2GzRyWq+R+Z6ahP0A9QAL+Qj5NVH94J0=''),
     (0x0C, ''01kyA2o5LpL8YH5MBMFD3W9DsxXgicUs/8fo7m0ZIBwWYA9QAMBnOpJOM8uOw=''),
     (0x0D, ''01kt3MgJFSQpTPAQip58UUTbHwdCSDhCDl1Rd8Pz0vDLMA9QANkDrA/CmpkMQ=''),
     (0x0E, ''01mSli7y+6z4jvrVnK7HPT/wHATxQ1H/087iu/xmH5hRMA9QAOIk+fWrmFQmU=''),
     (0x0F, ''01fWt+jeoquSXjUTVzv9x9+D1PmAeV0FIhp0IekJWDwp8A9QAPZ1p+aH47m2g=''),
     (0x10, ''013moyXqATbwKjPVaOIeN/TluRC8LGAJbsnjjhfUuuGDcA9QAQTiRv5JYkVXo=''),
     (0x11, ''01ySQtRhF7KwiA400ROVdFekFU21F5Y/CY28OBkJYEWiQA9QARMU4JgJIGE9w=''),
     (0x12, ''01IcbBLx6RLaWPRfBWf+K1SwkNpPePfj1epEVMsADG+ggA9QASTFVrXjLQBng=''),
     (0x13, ''01ACuiLUgDXMJrSog+z62id1VmIQ6dHc49sJRshHEansYA9QATntDga4Rxa9o=''),
     (0x14, ''01JY84hJ+hKtkWYVqyHBw+xRTGV/IZs5uA1evVqDZCn6wA9QAU5Ny6MonhGcc=''),
     (0x15, ''01rjH7NzXc5RbS53vUgvQN9+jckFgYNOZWTgfSvIKSkuwA9QAVdudKuQO8rHg=''),
     (0x16, ''01/X/JdnSmV3IY9VPNdNSmhh3DkNbnOAbdu3DWIubH+d4A9QAWr9B2HXPioFk=''),
     (0x17, ''013JHcHyfSM1dpF01X8giEKXIcoFQR9VbmeEb7/1jiFaYA9QAX7/gR11r9EpQ=''),
     (0x18, ''017j1mipxYL+QvqrCgK++vFuGtEVOPY1GPtw8qiK+h3e8A9QAYQHgzPusFcEw=''),
     (0x19, ''01SuwMBiAR/rZflwq3uPI4MMRfIXNCrk8r/Vci6PpsbKwA9QAZND3Ysupai7M=''),
     (0x1A, ''01Ot3Mo4/WJmi6adiIXg5GyjZrzCu4A4j3i/IHl9rZuFEA9QAacuR7oa9Epnk=''),
     (0x1B, ''01scyH+ngv2woaekNKjgxCV09vccisi+jSa/Jppuz54mQA9QAbt/r0WxkjG3Q=''),
     (0x1C, ''01EC6E3v8dP0oKiL4CA8VE0sty6ZKc2jIw+hARTuQO24cA9QAcyymPYwM/eMw=''),
     (0x1D, ''01N7nOPGHf7rOnYyqVVO0K/BUkd4UAWjhPqoSBMuWIoaIA9QAd24eZ7uU0ip0=''),
     (0x1E, ''01ttZKBsMNKn4f3k/wAgAYVEjZFR/FB6Tk8qREu0F7/Z4A9QAe99wnSf6u6iY=''),
     (0x1F, ''01Of6rerqNDxDGguHJreFve/Zm+5AqAo1znprBwBfLO34A9QAfR4gKGAHkKsM=''),
     (0x20, ''01PaFtFBg4wgFmeL9OLrCmyIae0005xF/DyxR9rwfYts0A9QAgJpja4PiF7ps=''),
     (0x21, ''01qNI57WWL3nbJId1G26pImcf/mcPgbBDqJga5A/gYdHgA9QAhWoy6dg+BJfQ=''),
     (0x22, ''01DCrzYhbboVGpeEvALJ/9SaM+3kaVAbFQmRXqE+Kwg5QA9QAiUiwV6j9hKmU=''),
     (0x23, ''01jlWnPKxj/k9Zpm7nUqCC2aFJEaH3zjiC2qcZiJwyIsQA9QAjob/j07DFV6E=''),
     (0x24, ''01vJ9x3RUojn7WEp0YRcxR5YRGks/mE4wkxESXmR4xBvUA9QAkE5AQcBRppro=''),
     (0x25, ''01LZ7UJ0GeKFcsWLaNJ9LSYyAhFxU+gigPEn9XVbagg9cA9QAlA1ONWgO+c8U=''),
     (0x26, ''01dNbFPI5oBCUkpMCsQnLSZzKrM1H96xiUFBgDjHQxItUA9QAmdy0CKDkIEfQ=''),
     (0x27, ''01XRo3XLLiF67ghT6iI64fvqPpUTk2n+RzoJZTivW3h9AA9QAn778LLcThkGU=''),
     (0x28, ''01X87tXIT6hLvIUUnQuiOv7Za/a0sB9RjOI91J2IcQYeAA9QAo9IP34SpBGjA=''),
     (0x29, ''01JP1whfM4S39KDVm/gVYMkIFkKPRZ0ULEhkV7LIw/TVUA9QApikKF/1FvPuQ=''),
     (0x2A, ''01joamnu17tv3VBvTeWzJzzdzArVA5gmcR65ub3TOAR9wA9QAqJ3l2ioc4BW4=''),
     (0x2B, ''01uH6Nc9wxAS8OPlAdpKgRHcikd1KlKMYg6t1AwyIgHCgA9QArQ6ePG2dr7yU=''),
     (0x2C, ''01BWj7PSCVuJntPzSrdI8r7b7a2+gNvH6w51UGR/cpXEAA9QAsj5LJEIf1bSE=''),
     (0x2D, ''01ZFH1fw0jHvHLJbiaQ38t8HAiGo9LNCDxyQgHQxIrr3UA9QAtmUnvvvP9B+Q=''),
     (0x2E, ''01mmxF6BoUeo1UUh/c2UolFcMKWOhyhBC1TuGnSYZWVSQA9QAurXrnNjNZwnQ=''),
     (0x2F, ''01W4FzhLUL9wqImi0025OzMzmKrZJg30bV2eSbJk3e1RcA9QAvyg04+OuUvaQ=''),
     (0x30, ''01gemYz53qoHDPbQYqZbYFx46m91zeXNzFMr1gn4fTpXMA9QAw6mglW406XbY=''),
     (0x31, ''010CrGdMA5uIDYXvcFh7Y/8ogCdkhxIrTeiGnBAv6PRmwA9QAxEG7h69ZK1Bk=''),
     (0x32, ''01vjHv/Y2ojwR7ZYBTZyMonfgi7DBb2OtbXuPbRFm4UGIA9QAyLzBDKxTt4po=''),
     (0x33, ''01cAqBvmTVdkJit9y6CVdP4VWxQ4ycD/CW7q6dIltZ/qAA9QAzHQZWY0PnG5A=''),
     (0x34, ''01qQGdoDxLwI8EusXrOOdm9BrNKgIvhHdaHG1gN85tgVYA9QA0lun7ALvDurU=''),
     (0x35, ''01ve200zlvSJ2wv5WEhXlqAgtHDVjYDaWepHLmyuBGUK8A9QA1XqhJiQyYurQ=''),
     (0x36, ''01PrIImoc9I8LR2KMWN/rbWu2tZq5rQiB2OQU3hZziKwkA9QA2puW6c/M4MCQ=''),
     (0x37, ''01ioZ1mqryEXr9YGQuxku+p8jT/+YomXXC7BC6rmJE4vQA9QA3xceIvel9T64=''),
     (0x38, ''01XzgqDd/KFYJ+dE52WTv5F71YtawWa5EO9HNQtYJLDvkA9QA4Wnc1e7c+HpM=''),
     (0x39, ''01es3ZegqxoU+adkZH+XJDb4B3GyR+tWg2SuRyNf5oQFkA9QA5bYj/MCg3E/A=''),
     (0x3A, ''010D2FO5FIeElRt4fi27P7sW+utpG3v32awdirhlNEu6EA9QA6IDFotEVBUME=''),
     (0x3B, ''01kl25BDTTPrP4WLY5RKGskcWBxE5tv6pX9TuaC2ykwesA9QA7qaLOLgrb8oA=''),
     (0x3C, ''01SvN0LxbPo9hHn05TJwK+znxWI+Vav5MPOLMpSK4mQWEA9QA8UymqObSvUMQ=''),
     (0x3D, ''01qHdMY9bAKl99Q5MHTwML8kKKGRXSONSA7FthJ1tY5qoA9QA9QE6tHYhSE+s=''),
     (0x3E, ''01GrFzSAf5Xm4HXLxaiheJbWzR0zu3C07FqPGNWAGI6t0A9QA+QPx458xUphY=''),
     (0x3F, ''01VE8RHtZXUg5lqqe5K5qTznezIStuUSN6v1gKLp3NwdYA9QA/ZdRebAxMuCY=''),
     (0x40, ''01KVci+9cRyd+acCN3IZXXViP+C5lFjSwlUzdBNjgb3xcA9QBABv7puNYtodM=''),
     (0x41, ''01JGvEGYZpzfX3JvP6O/Iby8XFHEXO9xPG3KMwFlZmUqkA9QBBCz42u+uMymA=''),
     (0x42, ''01BIVUkUjQTNmZKefxkEwVhAE3QJmB+2iOK8f3vDwlUMMA9QBCH6kCK+qfxd4=''),
     (0x43, ''01z7UJAuMVWZ+BZj+t9bgvXx7w4QzgzqJddoD9kiNkTaYA9QBDdcsbk9mJlhI=''),
     (0x44, ''01wX/M+8OSmMddgdf/RP/915L4+hkddWQgyftyxVSUMjkA9QBEoiYel4NxfWQ=''),
     (0x45, ''01ZDQ8a/4/tsA1B+Lpfk2RYhNPwO6uxeT57EjdPTeyexMA9QBFuHtz5G/LEGo=''),
     (0x46, ''0121ywdh7p0YK6MS+O9Vg8iaFMAdm6faGBe/oPIeJ6s24A9QBGCq7l1dfR8eU=''),
     (0x47, ''01pyGjCwZdEc7KXmZXABawQTAN1qyPtW25zV8QHjLoXIMA9QBHYdF9TQJZ0zU=''),
     (0x48, ''01vqoVRwRXMN+j3qPQU4Enfg1lbBB81zZEH0mrr8kPMR4A9QBITWUzXH5ASok=''),
     (0x49, ''01iElbTKH/fTSqfg7XkUe0OI323dEaQ5lgDvwX5vXpexIA9QBJo/7Ta5M+EoM=''),
     (0x4A, ''01OSYuyfXqL1VH+tSid74ygjvUen6cBqWmYXPmsgqLcUIA9QBK/42PlTHvQdU=''),
     (0x4B, ''01fIYk5Er5cxIQH2NFDMx+WIWhsp1nKYOtccC+hPZF2UYA9QBLPSAaanbuLCI=''),
     (0x4C, ''011hUcvLdOKLh/18xTobX/izWo0FmrBpcRyQdhZltbrSgA9QBMKd/5SGi45lM=''),
     (0x4D, ''0184DBLyV08bk/jHN6sPCuAcCJh/Vm94YoYykYlCVetM8A9QBNg+SezK03fOQ=''),
     (0x4E, ''01yuxrZYDNQGYewJ1HFZTLg6xj+KdGcNQ+HuWhpzPxm7EA9QBOt/WQcZ+ANHk=''),
     (0x4F, ''01yuesDD9Y9frtuvmraPC3RSmSOzWiPKbJXyLXaEpAkLcA9QBPrCb4jC05KAo=''),
     (0x50, ''01VJSfB7SbJVqUFBPSYuETHjCXiLFUau1mtUOrDTl5s/sA9QBQS40Lk4QfTtk=''),
     (0x51, ''01zOwhn+ibvdc+OA9ftpIeM+SSAEL7a4fndW29SlgCrVoA9QBRF82euDDSHNE=''),
     (0x52, ''01VxdwoUMrFgZ5JjVmVkexNEtN8iSN5Y2E4jFZUPXtbWAA9QBSB/Le2nxOd0c=''),
     (0x53, ''01b5Mv19HMCx5nQ6M1RVt11IXiPH36f7+f4AXIM9uogpcA9QBTgxvxDckYCng=''),
     (0x54, ''016bL6REfdmLmr5tojQEjKXZKR7eLNeoV2vdXBWUmh13cA9QBUUZdw/ytoL4Q=''),
     (0x55, ''014qYwIvlbFdYpXrdYojAxop4CIlC9G9nuhRbfks9N/F0A9QBV1NzRJC5k4Lk=''),
     (0x56, ''01QKHQO+mtClv/WGKOAoC/vLZVR1RFiduUlfs6dOSPXzcA9QBWyV/iReGhSP0=''),
     (0x57, ''01DtRqK/98CkTMbc22cPcY/FhX61dVz7x4T49f8sd2oBQA9QBX2H2yX1EBjiQ=''),
     (0x58, ''01g70NsnVWcn4QksSemSrNgvtzAP8wOV5Rx+zj7za/G9EA9QBYsMTnKVsCllA=''),
     (0x59, ''01z6l1JM04AXEA1nwdhb+ErIV/wOm9HpJlDXETkgwdgPwA9QBZ/UWVnL5VoRk=''),
     (0x5A, ''01k7VtuxhfcdpSO5EhtIwWLsTJuFMwPxR2ygR7KcH8TRIA9QBanhqgDcd5bns=''),
     (0x5B, ''01YZHoz+bgUlpbGtYI3lqzkb2ct+fNyJSoEotr/MSjSywA9QBbTv/hN0CXFd8=''),
     (0x5C, ''01tbFqqW77Y1YOAwQoqu9humgAFq2iN11g4F6IuouS1SEA9QBcmQ+XR1x/Wq0=''),
     (0x5D, ''01K7KyedjtK1FUJGTCHtbNc7z19OB6SLsSHghnIZ9ljZsA9QBd6gGvDhmDLFk=''),
     (0x5E, ''011Df9+pUyQYKwDM3WTZfyEFPDkQWMMuGPqn4PbGS5t4wA9QBeBEgUb2K3FQg=''),
     (0x5F, ''01TWrQlCKdfJQybPGGoz3tpT8MFZ/LeHuij5EXF8kbZp0A9QBfaRCtjq0OxB8=''),
     (0x60, ''01ANdOLAkpbZZtx7Nto7+KqMC8aZVAE50d19ag7yc7C1kA9QBgrW7LpBvK2Oc=''),
     (0x61, ''015E+paPsIxmIdmmTBTSOBnWo9aY/emUucCYV/PKyjW/sA9QBhvcZ0NMLnEfw=''),
     (0x62, ''01ObjJ39VOqLnSYKu8HbcrpgfXhYmdo7bXh4eI4+T1DFYA9QBiqTuaRV9nhck=''),
     (0x63, ''01kbRBTRJ8D0BFxab6+lrzurKpqkctvir3ZCktRnxuy44A9QBjEhBRb+slbNA=''),
     (0x64, ''01DfTiizrShgltjeVmKqZZMdnHj3pJOMS16tknEPy1n1UA9QBkGGpP/xTJKtY=''),
     (0x65, ''01ZfKqtWzR8XTYB4FSa/vPMlJinPAappQg8MfIykdMUPMA9QBl9J2VuRM5g8E=''),
     (0x66, ''01r2qg63EuUk1QxLWTgOdDFNv8JQoRMA1/kbU7R3b0ApwA9QBmu/ACR7khW/4=''),
     (0x67, ''01skPXmFaoToRYv7I3BcxjdD4+pJhqenhBs4Vi+ssn52AA9QBntVTzkwIx+wc=''),
     (0x68, ''0107qAr3iF27YSA60xiiMGN/55oeQfeeN4c5AsjGbhVCoA9QBoK903cZU41gE=''),
     (0x69, ''01PPXyxK3bVxBrkWXwohfGw7up+Qgofr74nolAO+NxZ6IA9QBpZhshEs+GhZo=''),
     (0x6A, ''01chwsDcqPPLKIGltS3FqG7D7JjwKHA+nkUSXObUL87B8A9QBqS3DrKdtfCjM=''),
     (0x6B, ''01LCvbbI9iIU1yj7G9L9aN25gKZsJUrL93Aocv/w782SQA9QBr7RyE4mgSlaA=''),
     (0x6C, ''01kiEDI80tGQY/svtJ3HHwTPV95UpH8piJduej7bzaJ/AA9QBsMDJENupylLU=''),
     (0x6D, ''01PHgrYTFnjTDT1f6tiBfA5mLVDBxLMCpMNGt23tzXZw8A9QBtMlj9swYhAmI=''),
     (0x6E, ''01X77yfF2lPxce6uAQXCXWvT+mjXCohqqqDp6VXJV+nBcA9QBuc0R9D4JUGG8=''),
     (0x6F, ''014OeLd2WJ/oCDk+DS3wF6wS1unM1PJqgPr8/TEm1+qYQA9QBvcLGX6EPVGjw=''),
     (0x70, ''01tT0WurB5VGLTCpBymxN08mrMa7NgbRcTAdo300OZ42EA9QBwibmcH6cD2F4=''),
     (0x71, ''01PCKu7tgl37tG8YbfyNM4hC89owicvH9J99V8ls4QfCwA9QBxbdnvgqdjbG0=''),
     (0x72, ''01dOYAmP8+wXPiL4tL8AjV+0sGJt06aZ4IIH4sa55YzIoA9QByqkW8mvMZu68=''),
     (0x73, ''01tKqYeMjuH+Ypl/XgfTytMYW8ff5/XdqjbHo1A6pe4hEA9QBzUNkoyWoSXd8=''),
     (0x74, ''01lnttrN8oej/CIfpTi6KmWuS5Zqbzy9wcHm/ZZPbZSe4A9QB0Y+t0r6hu+fc=''),
     (0x75, ''01voHZZnnJciNJBrXWUdTUDc8vSdFtOcA9Y2fNYaM2VsYA9QB1ZAGH5AxLh1o=''),
     (0x76, ''01q0xhYIVBOosokTZXI5rrRQLanwxvJfRg6J10euBeHeAA9QB25NryCJ56FEg=''),
     (0x77, ''01cGcspFxf+0tBzRgtIzTs2OG+kyogY6zyQlfNIXywPhwA9QB3qd8TD4/SB9A=''),
     (0x78, ''01H1TAHqqUcG440PSFKwXKYK+kHhn9joU5o7tHBkB0u/wA9QB4vcy3May3QLA=''),
     (0x79, ''01bCP4mh5HmLNsAyJfJG1sqQCZtjNokXWw11FPivDTnHgA9QB5gpF3oQe3j5s=''),
     (0x7A, ''019kSwdShtwXv+r4d8IIWrRxbc4L6AGkJEZ+x+mHo5poMA9QB64nrM/7i4FQI=''),
     (0x7B, ''01U6j3KPT2bvarKbEIecq3G6xWc/Fm/gXfjTQ/NjT0WQEA9QB7OonDEpgQM+8=''),
     (0x7C, ''01nNzBj1t6YY+SdxbMIeHq9bJMdgrBybLsjPRSsoX9eN8A9QB8hhFaK9myzdU=''),
     (0x7D, ''01DftdebCDKLmd5vsmwybBzaidPd2u3hdC8qcXi1kmaW0A9QB9VSn1B/lIyoI=''),
     (0x7E, ''01flBOFU42alWzyf2G9PSnJeTzpk7R7LBw7KgT3XbrdgMA9QB+EQaMiyrEQuI=''),
     (0x7F, ''01PpuYfSRTklSsKKbbf4VagU5nG29toK2Y/7NgUDCbiT4A9QB/Tpp2KomLpJA=''),
     (0x80, ''0158cgKIz5atlNHRyirx8mBcyDw3RzFJPr64iXE0T6XloA9QCA+4tm59SWpA8=''),
     (0x81, ''01ZKHjcVdrWnBYqd/sw4z5YR7z3NqPC+b7ATXL0HtCcHQA9QCBlp+rL53FYag=''),
     (0x82, ''01Zlotl4FXZYkPdT2TQVUaSDde+EYMxUQSGMqQreVc7mMA9QCCltEaggRnkek=''),
     (0x83, ''01K6ESscADv3doOzAHEds24ME395Y+rSYJwVoIygiIRvMA9QCD1FkJmsblK60=''),
     (0x84, ''01yKyhLCAFWcnHaG0j5z+rRqzdY1VK5v7gLOVSTbqGz4YA9QCE+1H6yftpZoQ=''),
     (0x85, ''01gas60E44loqWfl7k8fllMiDSlr/QtY/5tsZIF7BW2F8A9QCFqtWLjJkGlf4=''),
     (0x86, ''01BdIkAMF1tO1w9bnV2PMQEgcJpbsmRDce2J/6C+2dFSoA9QCGLhtKt/SRs9E=''),
     (0x87, ''01CQPSJqJAUF30kUuEh15kDdZqfqta9p2GrPtILEH8W7UA9QCHWt1m7fCkCFs=''),
     (0x88, ''01gC2k2HfcPXWPq/l/yySUaez0v0e13bl7nekBjscHmoUA9QCItcUSSpuoCJ0=''),
     (0x89, ''01u8NIMScH94r/ZnP3NZ375e1bDwjrQyfOXyD8A2gYkm8A9QCJh7B9S+qNJfM=''),
     (0x8A, ''01ZVWq8V6b0CYrP7yrJY6JOAP1kCh+FcqDmuco55SD5N8A9QCKfQYQBHRX0OA=''),
     (0x8B, ''01b8gSU/+7/2sX1xCLT9E671g6Z+8BBfuDXFDBuwDLX1EA9QCLX2H4pkZ1X/0=''),
     (0x8C, ''01eu5yUTis6NcpiA8aV93Kio1jo16exGiqUP+sNXKMwi8A9QCME1nwAMPTDqE=''),
     (0x8D, ''01CpefxxckfjTlsGPep1dL49JPSG1p+2/0wrorJCFGxEoA9QCNrbCuRF+Gw3w=''),
     (0x8E, ''01jHTYH8SnrwLQ/n9o81FojInhziuqpCqxNuyXeBi9SH0A9QCOtSkH9+ZdPTg=''),
     (0x8F, ''01ldSMz2LdfT+X1IwImTmjZdPBRfVdqoogkMEWFBoP9YwA9QCPojaQF+qN5Y0=''),
     (0x90, ''01iVPYi2AipJiBTdYeB2imBQggq0wr8yrsM5aTUmOIgCsA9QCQvaK+uSve+Cw=''),
     (0x91, ''01s8AzxVVnElvjD7I9G3MFHYu46QEpZ8LAbOqPU3DiJwYA9QCR6nCRUogaWsE=''),
     (0x92, ''01sgqbD6nsKDz8SawCanylLyqwtoFUeMsY2Y6FxEi4rP0A9QCSAP8Ivi0OzQk=''),
     (0x93, ''01I9OeXKI+9aHkJNtpWJsQk2K9uB2N4owdDJdfgpl+2XkA9QCTJUNKxJ/fxfw=''),
     (0x94, ''01mzK11OiK3zwYY9HtaGqYJJlKQl/LSzw6lw8Um8D2Z+cA9QCUDd4ywAsjKYY=''),
     (0x95, ''01hXltaa9asjYP3hkerOLy4xOb5cdCeW6vxB7CTwgYXgoA9QCV/VPRdSVXr5c=''),
     (0x96, ''013OcEZAcZcIYk+JAME6xdICjftyo+oVAEWPBrz7/VcL4A9QCWrSwFxs4BcJY=''),
     (0x97, ''01V3LIsO0KSvTpBznfWlKHSC1wJ9/HeOCUflgq5xVw0p0A9QCXh4BjaJKZ20U=''),
     (0x98, ''01zB/Xt78FCuFJalzTYkZxkfVRYSGsj1btny/yS64sadcA9QCY+Su3BQlDCoM=''),
     (0x99, ''01BQiQXVCPBCe+KRgh0mTRtcIOjbz57ioHJyPDcWIPIf0A9QCZp4rR2gVJ3vc=''),
     (0x9A, ''01HWhMtUXpxiqpXZX7pesmxjjidDlHz8DEpCRVouJYsXQA9QCaiic/44Av9Bc=''),
     (0x9B, ''01AJq19ZS7yEp2G2qr9TachL67wGZCDzxAE7za+sD3W0AA9QCbtzd/JAPGqsg=''),
     (0x9C, ''01F69vVcywbPCj6R5Mt3mvureFySYOM/HaS+2A5bXCEnkA9QCcV69bTqe+Eqk=''),
     (0x9D, ''01Gb/0Qkgc+M4XBL2QT+mJoJ/GTlyjE/JwJLUJdBIzGSsA9QCd0MEPjzR7XlA=''),
     (0x9E, ''01s+j8COe6AiH3BPA7x5l2cUoPouaLhYPa4VvFQHwhz3MA9QCeAlTyk+rZ7oA=''),
     (0x9F, ''013c5xF7tG2debbOl32PczFukhxK6bU2jM0qf9LZf1lk4A9QCfqP6MZObsXGA=''),
     (0xA0, ''01riKSrZnDwxegohx1gc0SCsaJhwpdx74kIAHBv2efRD8A9QCgSkh+gg6gu9E=''),
     (0xA1, ''01XB89nLrHVf3Iz3HhDwrqAUiHQM2snAzqLAP5z3IoiaIA9QChXd9JguYlpFo=''),
     (0xA2, ''01wrI6aMFZ43DQ3LwvLA83ALrf7nFFoeBUwu6eqYzse3MA9QCivyxUTWjoH60=''),
     (0xA3, ''01cD8sTsxwmzQ1ELjRb7+zIJACVqaj3WHvVk1Ydoz4r5UA9QCjVhTVuu6YAv0=''),
     (0xA4, ''01RN7C/CPM4rkDeovve5d/grvKErZ/5HarMVgdEgLYD7YA9QCkJeJzSUdZZkY=''),
     (0xA5, ''011VhX4jxoAL2SDDMRdUHBg0EIVgcIZnS/yzCGFnkvqMoA9QClBO1b8iVccgQ=''),
     (0xA6, ''01e4B+QtZ7YUOKNpJjxCsO5dtipbyDLJONW4m3Ls2GsGQA9QCmeBNt8oUBewY=''),
     (0xA7, ''01DYHzvaGq3g9RS1NV4ZwUa/4C103i6QYtg3XrimDFF8oA9QCnJia6cFvwzq0=''),
     (0xA8, ''01mUOat+37IaeZXMYWqFCX+SqFo2ELynfxhXHiwTubXVYA9QCoi6JsR8kylHI=''),
     (0xA9, ''0187WM0Zhkzob6pXoZy5l+tq4NlPEQRdUCTyYvWePmF2QA9QCpr8KHT6maVbM=''),
     (0xAA, ''01lKWHZr9hIDoleSc38CnYqQBU/Yugu0Pg3UTGhg6maKkA9QCqZtOj3CFdXxA=''),
     (0xAB, ''01uxKwG+y5t7A4AYwFEy6s0NA6OE8tld/1sso58Jlx+b8A9QCry9CYW/f8R6U=''),
     (0xAC, ''01Sa5i99M9SV7H7Xz7ysfAv1s5A9LDbRbMErDgHcMYwU8A9QCsgb2lhJCIr8Q=''),
     (0xAD, ''01jOXZuEUaJAdaIfJROR1+dvSL3VRTBOiQfV7GqrCSnucA9QCtUyQHM70Eo+Y=''),
     (0xAE, ''01rxGZDeSyL42+2k661bUuTEWDI2MgpMx+sjI9PZ5K3E0A9QCuDEitB7CMTgM=''),
     (0xAF, ''010DZwcs6j0cLupnE3ktse6z72zxmjRp0BwfPkBCNapDoA9QCv8gL1rvTNKmw=''),
     (0xB0, ''01o73R4AYeSA0O4LtvnjBVVytcZG7UJQEvyKIQt2+ky6QA9QCwdBu77BiC7Zo=''),
     (0xB1, ''0119d+NMZAl4nKS7GD6TvDEh6pNcYsrWxnAvZB9jdUqJYA9QCxyjS9UdtX74A=''),
     (0xB2, ''01ZKnKg4MmdqiZungTh9Net2y4pj9oAeFnuVtUELqfLUEA9QCyKTwLV6SrUdk=''),
     (0xB3, ''01iiSAsDvuGbdq8aX/5Uc+luUo6N26ceL2Gnskw+vk7AkA9QCz7/8J7JELM/Q=''),
     (0xB4, ''01wEybLBO2TtNUx8YlTlh5tr3S47qhZlW7xxaIMmUk3hQA9QC04Efks8AIxTU=''),
     (0xB5, ''01oQxz5LFu5n6M0Q7bjZKKtQlbmiFw54dPy5BftRRiiv0A9QC1yYozwSU9mHg=''),
     (0xB6, ''01Vk74q3+HDhcUeq4ivWSz+WJC2cGtKrLs1Z75YgQ9wQsA9QC2d6hrVmj/Lr8=''),
     (0xB7, ''019obQ4g0eJozErHKiJez1ucNuwIeFyFYQnSXalcsaFecA9QC3yuKmyKrCRz0=''),
     (0xB8, ''01ShQSAxcy/62WC9Dmok9cWqWe76RkV+PlTN51KXvXsuIA9QC4quJSy9aJ30g=''),
     (0xB9, ''01Wc19Q0Cd+IxvNVuRSYmAWz43Mug6X7fE+ti25EFqy1gA9QC51VJACEewbX0=''),
     (0xBA, ''01KMpiG9A7T1Yc47RMaOHnmnAAt9LPTvBlKsRqoDlwACwA9QC6GgmG0lItkPQ=''),
     (0xBB, ''01mrrSn51GVH+hGhjze+IZRGLPRNjS9PjiBFLaBRHGbyAA9QC7sPcA4qy/8PQ=''),
     (0xBC, ''01eax3unXuamELKDUm63fP3tmGLggREvU/7q+7/+y96vMA9QC8sGbFvNPgRUI=''),
     (0xBD, ''01x4FrivUyjapkWhI5YlaOfzPdjDTvzekgYOk/M9719Q4A9QC9S4DKyhH5f0k=''),
     (0xBE, ''0104ZdwCBjjBdzIBVb39tu9yF72QpmQ3hSfnmQEjB3jBEA9QC+2UWa+PieQ3E=''),
     (0xBF, ''01XbLmZjejHJ52HGAuOXWgiv+X2cEBRUklZ1o456iGpg8A9QC/1d4IOlkOc+U=''),
     (0xC0, ''01uUemY6wT6n7eQgJsBP18yZwDXKg6XZmtZt8lr6sKYwkA9QDAGOFxtDbun04=''),
     (0xC1, ''01eBjY3cxEFHx6lRK7dkbU1NzaJ8ilmeqZw+CFuegWjl4A9QDBtNtsW8jynqk=''),
     (0xC2, ''01cxW1pFo/YnUs99C9B1sU+6QDb+SlWHhaoI5XSYZHRSUA9QDCxpcKztCUbPs=''),
     (0xC3, ''01tpxvOCMoZnRZwCx+C6GmvCEdCFcWz/odNEBIFngvVq4A9QDD2AMqsDogPaA=''),
     (0xC4, ''010BuvdF60cpb0eV7c7xvHztT6xeXUlqAktRj/OX8heRQA9QDEFa+Ow3uHfrg=''),
     (0xC5, ''017AnNA39T2mQXWclaxS8jQjoy1vCdeJBUlfXYpwSjveUA9QDFAGjKi0BKoP0=''),
     (0xC6, ''01U9Vs6MMYUZnjgrHdvTyXkPk09rOeSqTdhVvLgK9qyRgA9QDGowPx/4ouy2I=''),
     (0xC7, ''01BhEwlLeznoQcAvdfhXG5zP9DDzaA7nHFY0YsDx9VptEA9QDHr7Hrlfjjy1Q=''),
     (0xC8, ''01osA2G/JKPjtre3F/aLqzsV/5wFCWkMBlUTXPYQALpXwA9QDIsmjQVVIJOBY=''),
     (0xC9, ''01APTDRLesYQF8jF3T1e0mJviyaE8ZQbLhLHf0iSnNNL4A9QDJd9WrIOBCmPg=''),
     (0xCA, ''019ClfWtfCPPexu4jZCn8E3UJJUtcrO6XJUcJ8ot7/jOUA9QDKUP/cOj+9DwI=''),
     (0xCB, ''01GfnLcM56Ogqo5kuKna0knG4vHu01Aweb8o3shNk4kdwA9QDLxEJszADx5ro=''),
     (0xCC, ''01bzNCY11gQ4wfybfRow74waIzmSleHIQi9LUdc6aoBIQA9QDMdd6raTvQJJg=''),
     (0xCD, ''01XEqW2DcTnCIRuL39aj7AHJ15Xb/tSN+4obrNT2XBYB4A9QDNM2DxWRj3Vd4=''),
     (0xCE, ''0174wqqOXMCpSOnU2Lng9DysTI6XRgJOOzrmlpRFrW99cA9QDO2vLloq4qlrM=''),
     (0xCF, ''01F0kT+HUsHgdZMaPTiUA5VuiFb32J97l4CGnoLALf0noA9QDPdWV0HPcrZSg=''),
     (0xD0, ''01QAdMAu67r9Ts1CXACDVb4pi77bZ/5sCL218IKdkR+KsA9QDQ5ho2P+myrZI=''),
     (0xD1, ''01aIpLWofG15lhCdRkq4OVxFxyDNlY9AQe+Sxw8Ez1wgIA9QDRz2SgGRA9bpo=''),
     (0xD2, ''01cTN6mM8lLn+2JhXnXzFkf+1y6/i+AV2qgqj849dsZYoA9QDSISg4guxlros=''),
     (0xD3, ''010KSweNK36uIq5u2XnKdN1f6zJST6KfEV2eRLUj2gW+kA9QDTe+VN+pQvVN8=''),
     (0xD4, ''01BjPiWcWMFNEWVwMHRwRsU6FxYOhN/5s9C+s3hUbXuVsA9QDUqI8FVMKWTu4=''),
     (0xD5, ''01ZJxP8ch2/jFRfP7ZMAyVB3mOz0kmXHaa/49jr5uhyQIA9QDVV9YF9uwGoPQ=''),
     (0xD6, ''01aXkRq1sPci96K7nx96eG3EG36OhHrRjXk50YdMa8jRUA9QDWTFthm8bz9lc=''),
     (0xD7, ''010+SdM9+RFyzJF5EH0Y03lh+bZ8dkj575Q+1/rVpghEgA9QDXI4SCAokB1Ws=''),
     (0xD8, ''01LsX7y8EDu7e32p9kBD6/35HaTvCgU3j8DI291q9w+V4A9QDYOHLDSGt/p5E=''),
     (0xD9, ''01HerUqqMVjy7ElbhfSGhF7oQ2CwH4kSyKeYn+984GbZUA9QDZmZ12guW4nEc=''),
     (0xDA, ''01sq9ZTyg/uamwZKtb6G4pXbLU3imlV64GtEYVcIwc19EA9QDaCcPxBW8FT4A=''),
     (0xDB, ''01I4w5qZWAFfel8uJrpaB+0XGhNMJhlPLk2IOh2rPNSUEA9QDbGbAYVmT/74o=''),
     (0xDC, ''01W+jmCQJlvcLhAY3YPzKSflTjvrFr1G1tH/wWBeVL62IA9QDcAbVWB36nbx4=''),
     (0xDD, ''01XhynrWGgIS9v9bkwGxADdlSQBVVr0ezOvd3W6N/AS7cA9QDd8nrXhEMsgDc=''),
     (0xDE, ''01zTyvv9YtVss0eSJ6FACF6Nc+u+mL29mu6yYirmFRKi8A9QDe0AGAmR4fLcY=''),
     (0xDF, ''019+nob9ZiHwaRJU6Cx+lBBHufg+AJL6qe0u4cR0KHalwA9QDfFAilx9Vvb/w=''),
     (0xE0, ''01uYEF+dBwc+cT3ocldEYLoBMBL93xVBEXgMwW3pehDh0A9QDgZ0Xh+zTzW7o=''),
     (0xE1, ''01ZDThF9vrJybP/+a6YDg7zalHxdbcmL4M9XYCw29QemAA9QDhx7nDSnj85PM=''),
     (0xE2, ''01JclXHp1GSrbwjxLEZ+n0oJvoN3X9hKC/DmT9aJdvDdwA9QDiq+2YBSKAEkU=''),
     (0xE3, ''01ixep85GehkH5t6XKCR9i1joBJaFl5Sb36Rqgm8SXWxYA9QDj2mipDaGl0Yo=''),
     (0xE4, ''01WsQ/mFQL063c/lPLeB2zL1wD66E/YCfxSulEZ9hjfW4A9QDkp/as3+IlWXQ=''),
     (0xE5, ''01zcT3cwWBMMwi8qFKwsj9d7W9B1daoBDE6bkAm6WzA3MA9QDlbjOEmKaqlLs=''),
     (0xE6, ''01ED4oUlKfRcWnXeYsLtDILAy4Z1ouLwz6TOiHfDt6dTYA9QDmQQQ5XMOgMeY=''),
     (0xE7, ''015eZT2Fd8WyEvy0fDsYAob5E+Po2r8/kxvTAadGgbbHkA9QDn1rB0N8LDUds=''),
     (0xE8, ''01uEsKPiaL1JNI9CNydCzERDKuQ79D+HpW5RmBieRulrcA9QDoe+8R0cR+QsE=''),
     (0xE9, ''01df5o1LcRC82Td/QyZMJlMQTh4jc85FYQPYjcIGCnmMoA9QDpxGnG1V/A6vg=''),
     (0xEA, ''015TBq4z+cosSY48N8GppV3Lu1DMSTWj88bM0jjjKOIlYA9QDqKlZln2uOz8w=''),
     (0xEB, ''01bviPVwO2fDKdPpOFw5RHcTLyJHof6QR/zBwp0NB4MJsA9QDrctkpOSvXht0=''),
     (0xEC, ''01vKvPMw/EM86zYKsq9BZ8QmBJfHtbNUDhutGuR7JNh8UA9QDs2WF4UpDxTnA=''),
     (0xED, ''01cdSR7LduuhIk+zzyy4Th1XEfLfXhJMomGwkVs0x0PYkA9QDtWRjqUN4lcZY=''),
     (0xEE, ''01uVUomAEtq1qddKAcG8aqK+AcAZamcUMLNvc37/8rY8oA9QDu7LVPSX0VBNU=''),
     (0xEF, ''01a1czIEm3yGyYo0IJAlbUq/1QVDgHVBiJZTSkfGyLqqkA9QDvbmmByRUO3SE=''),
     (0xF0, ''01oCBLAlH/QbSb4/1TWRgiLWfyc3Yy/7qWIJ2tM+KuME8A9QDwIqj782i9/UI=''),
     (0xF1, ''01vU8CaeDWeMZDAFXBbKaa/K8QcuCkeL3K3gchOjL42AUA9QDxCk1T7SkbABQ=''),
     (0xF2, ''01jD0Qsf8o2RccMeMxzSZbKP/tbPlI+cS3WDXiLoVg0C0A9QDyvBsFxZc0A/0=''),
     (0xF3, ''01Ak8k1QkhzYljBn2s3e94s9ygNT/JgDqpcS3HAfTECS8A9QDzHcLPRVsfvIA=''),
     (0xF4, ''01ELuR0V3hEUolnluml7M0hreCE108wWovyNFWnLqPi+kA9QD0mYpSp1k5vY0=''),
     (0xF5, ''01FgFvAwpvHIyGSgMYVsdOz/vOIsR4eS/FL6OAxRYxtsUA9QD1y79DhQv/AzU=''),
     (0xF6, ''01Eo/ZMNSg6X52WhJm6rOYjq6ErPbxyfexTfeJhCnHpWEA9QD22ztm8EYQCrc=''),
     (0xF7, ''01g+nXfw49hCpE4Vx9TUDgj/vuJjW60FxU2CZCBUVoGocA9QD3sVqGXRgJFW4=''),
     (0xF8, ''015HiHfJHq8s3QSQMdnlVPU/P6CAlKD7ujZ7VF/OzXuigA9QD4WX48ixdxKfA=''),
     (0xF9, ''01q7iOmQhpf03wMdb/Dld9l/X3CdOpotqrATEOqHTDg9IA9QD5NJmIF54BgK8=''),
     (0xFA, ''01s/mtJ9+u6EvImIs8fmg1FZpAboyfZFWJmiFtYaD+zqEA9QD6YiTsvrUxtF8=''),
     (0xFB, ''01pWPbxhRwXYv20S0sqytFVQRdCii1Bth9ElqrEyHZo4AA9QD7Ka/VJ53mBxc=''),
     (0xFC, ''01t70j5dCz8OtNP2suXH9jX4By923A8qZ/HlfIoKJyIscA9QD8QBFD+j0DNc4=''),
     (0xFD, ''01HQpS7K+PhuBN1Y8x2r6o297fv8RJ7oOO4gCWp/LoRqMA9QD90Mzd2IGm3Dg=''),
     (0xFE, ''01zO5Wjn2SVYsTRUVBjTxZQBmQZF6aHLzod82ddiHJkCgA9QD+bWRPEgaXH9Y=''),
     (0xFF, ''01tRpkm8gqDi4NkXtkog3jClp79tHI1/tKjAwTgMvE37IA9QD/pwJnkexTRWY='')
  ]"

text \<open>\<^verbatim>\<open>int.from_bytes(bs, "big")\<close>\<close>

definition int_from_bytes_big :: "byte list \<Rightarrow> int" where
  "int_from_bytes_big bs = foldl (\<lambda>acc b. acc * 256 + uint b) 0 bs"

text \<open>
  \<^verbatim>\<open>blob[:2]\<close> is \<open>take 2 blob\<close>, \<^verbatim>\<open>blob[2:]\<close> is \<open>drop 2 blob\<close>, and \<^verbatim>\<open>raw[i:j]\<close> is
  \<open>take (j - i) (drop i raw)\<close>.
\<close>

definition parse_password_blob :: "string \<Rightarrow> error + PasswordRecord" where
  "parse_password_blob blob =
     (if length blob < 62 then Inl BlobTooShort
      else
        let prefix = take 2 blob in
        if prefix \<noteq> ''01'' \<and> prefix \<noteq> ''03'' then Inl UnsupportedPrefix
        else
          let payload = drop 2 blob in
          if length payload \<noteq> 60 then Inl PayloadLengthInvalid
          else
            case b64decode payload of
              None \<Rightarrow> Inl Base64Invalid
            | Some raw \<Rightarrow>
                if length raw \<noteq> 44 then Inl DecodedLengthInvalid
                else
                  let secret = take 32 raw;
                      min_seed = int_from_bytes_big (take 2 (drop 32 raw));
                      algo_id = int_from_bytes_big (take 2 (drop 34 raw));
                      digest = take 8 (sha256 (take 36 raw))
                  in if digest \<noteq> take 8 (drop 36 raw) then Inl AuthenticityError
                     else Inr \<lparr>secret = secret, min_seed = min_seed, algo_id = algo_id\<rparr>)"

text \<open>\<^verbatim>\<open>for _ in range(iterations): digest = hashlib.sha256(digest).digest()\<close>; the range of
  a negative number is empty.\<close>

definition run_hash_chain :: "byte list \<Rightarrow> int \<Rightarrow> byte list" where
  "run_hash_chain secret' iterations =
     fold (\<lambda>_ digest. sha256 digest) [0..<nat iterations] secret'"

text \<open>The slice assignment \<^verbatim>\<open>block[11:16] = seed\<close> replaces the elements 11..15 of
  the block by the elements of the seed.\<close>

definition derive_key_from_blob ::
  "string \<Rightarrow> byte list \<Rightarrow> int \<Rightarrow> error + (byte list \<times> int \<times> byte list)" where
  "derive_key_from_blob blob seed algo =
     (case parse_password_blob blob of
        Inl e \<Rightarrow> Inl e
      | Inr rec \<Rightarrow>
          if algo \<noteq> algo_id rec then Inl AlgorithmMismatch
          else if length seed \<noteq> 5 then Inl InvalidSeedLength
          else
            let seed_tail = uint (seed ! 4);
                max_seed = 255 - seed_tail
            in if min_seed rec > max_seed then Inl SeedRejected
               else
                 let iterations = max_seed - min_seed rec;
                     digest = run_hash_chain (secret rec) iterations;
                     aes_key = take 16 digest;
                     block = replicate 16 (0xFF :: byte);
                     block = take 11 block @ seed @ drop 16 block
                 in case aes_encrypt_block aes_key block of
                      Inl e \<Rightarrow> Inl e
                    | Inr ciphertext \<Rightarrow> Inr (take 5 ciphertext, iterations, aes_key))"

text \<open>
  The registry is a dictionary from algorithm ids to blob strings. Without one
  (\<open>None\<close>) the module's global dictionary \<^verbatim>\<open>PASSWORD_MAP\<close> is read when the call is made: a
  Python dictionary is mutable, so its value at that moment, \<open>module_map\<close>, is an input of
  the call. When the module is imported it is \<open>map_of PASSWORD_MAP\<close>.
  \<^verbatim>\<open>if not blob\<close> holds for a missing key (\<^verbatim>\<open>get\<close> returns \<^verbatim>\<open>None\<close>) and for the empty
  string.
\<close>

definition derive_key_from_algo ::
  "(int \<rightharpoonup> string) \<Rightarrow> int \<Rightarrow> byte list \<Rightarrow> (int \<rightharpoonup> string) option \<Rightarrow>
     error + (byte list \<times> int \<times> byte list)" where
  "derive_key_from_algo module_map algo seed password_map =
     (let password_map = (case password_map of None \<Rightarrow> module_map | Some m \<Rightarrow> m)
      in case password_map algo of
           None \<Rightarrow> Inl UnknownAlgorithm
         | Some blob \<Rightarrow>
             if blob = [] then Inl UnknownAlgorithm
             else derive_key_from_blob blob seed algo)"

section \<open>Auxiliary definitions\<close>

text \<open>
  A numeral of type \<open>word32\<close> is not reduced modulo \<open>2 ^ 32\<close> by itself. \<open>word32_norm\<close>,
  the identity on words, marks where the rules that evaluate \<open>sha256\<close> bring a sum back
  below \<open>2 ^ 32\<close>.
\<close>

definition word32_norm :: "word32 \<Rightarrow> word32" where
  "word32_norm w = w"

text \<open>
  The key schedule reads the words number \<open>i - 1\<close> and \<open>i - 4\<close> of a list of \<open>i\<close> words:
  the first and the fourth element of the reversed list. \<open>key_step_rev\<close> is
  \<open>expand_key_step\<close> on the reversed list.
\<close>

definition next_word :: "nat \<Rightarrow> byte list \<Rightarrow> byte list \<Rightarrow> byte list" where
  "next_word i prev back4 =
     (let temp = (if i mod 4 = 0
                  then (let t = sub_word (rot_word prev)
                        in t[0 := t ! 0 XOR RCON ! (i div 4)])
                  else prev)
      in map (\<lambda>j. (back4 ! j XOR temp ! j) AND 0xFF) [0..<4])"

definition key_step_rev :: "nat \<Rightarrow> byte list list \<Rightarrow> byte list list" where
  "key_step_rev i rws = next_word i (rws ! 0) (rws ! 3) # rws"

subsection \<open>Sample data\<close>

text \<open>
  The blob registered for algorithm 0x87 in the table of the source, its decoded payload
  and record, and the seed 8C E7 D1 FD 06.
\<close>

definition sample_blob :: string where
  "sample_blob = ''01CQPSJqJAUF30kUuEh15kDdZqfqta9p2GrPtILEH8W7UA9QCHWt1m7fCkCFs=''"

definition sample_payload :: "byte list" where
  "sample_payload =
     [9, 3, 210, 38, 162, 64, 80, 93, 244, 145, 75, 132, 135, 94, 100, 13, 214, 106, 126,
      171, 90, 246, 157, 134, 172, 251, 72, 44, 65, 252, 91, 181, 0, 245, 0, 135, 90, 221,
      102, 237, 240, 164, 8, 91]"

definition sample_record :: PasswordRecord where
  "sample_record =
     \<lparr>secret =
        [9, 3, 210, 38, 162, 64, 80, 93, 244, 145, 75, 132, 135, 94, 100, 13, 214, 106,
         126, 171, 90, 246, 157, 134, 172, 251, 72, 44, 65, 252, 91, 181],
      min_seed = 245, algo_id = 0x87\<rparr>"

definition sample_seed :: "byte list" where
  "sample_seed = [0x8C, 0xE7, 0xD1, 0xFD, 0x06]"

text \<open>The same payload with the lowest bit of its last byte flipped, encoded again.\<close>

definition flipped_blob :: string where
  "flipped_blob = ''01CQPSJqJAUF30kUuEh15kDdZqfqta9p2GrPtILEH8W7UA9QCHWt1m7fCkCFo=''"

text \<open>A blob for algorithm 1 whose \<open>min_seed\<close> is 0: the secret is an arbitrary 32-byte string.\<close>

definition zero_blob :: string where
  "zero_blob = ''01CzBVep/E6Q4zWH2ix+wRNluApcrvFDleg6jN8hc8YYYAAAAB0GmX5FUCJJM=''"

definition zero_record :: PasswordRecord where
  "zero_record =
     \<lparr>secret =
        [11, 48, 85, 122, 159, 196, 233, 14, 51, 88, 125, 162, 199, 236, 17, 54, 91, 128,
         165, 202, 239, 20, 57, 94, 131, 168, 205, 242, 23, 60, 97, 134],
      min_seed = 0, algo_id = 1\<rparr>"

section \<open>Auxiliary facts\<close>

subsection \<open>The hash chain\<close>

lemma fold_const_funpow: "fold (\<lambda>_. f) [0..<k] s = (f ^^ k) s"
  by (induction k) simp_all

lemma run_hash_chain_funpow: "run_hash_chain s n = (sha256 ^^ nat n) s"
  unfolding run_hash_chain_def by (rule fold_const_funpow)

lemma length_word32_bytes: "length (word32_bytes w) = 4"
  by (simp add: word32_bytes_def)

lemma length_state_bytes: "length (state_bytes st) = 32"
  by (induction st rule: state_bytes.induct) (simp add: length_word32_bytes)

lemma length_sha256: "length (sha256 msg) = 32"
  by (simp add: sha256_def Let_def length_state_bytes)

lemma length_sha256_funpow: "length s = 32 \<Longrightarrow> length ((sha256 ^^ k) s) = 32"
  by (cases k) (simp_all add: length_sha256)

lemma length_run_hash_chain: "length s = 32 \<Longrightarrow> length (run_hash_chain s n) = 32"
  by (simp add: run_hash_chain_funpow length_sha256_funpow)

subsection \<open>Which errors the cipher can raise\<close>

lemma expand_key_error: "expand_key key = Inl e \<Longrightarrow> e = InvalidKeyLength"
  by (simp add: expand_key_def Let_def split: if_splits)

lemma aes_encrypt_block_error:
  "aes_encrypt_block key block = Inl e \<Longrightarrow> e = InvalidKeyLength \<or> e = InvalidBlockLength"
  by (auto simp: aes_encrypt_block_def Let_def dest: expand_key_error split: if_splits sum.splits)

lemma aes_encrypt_block_ok:
  "length key = 16 \<Longrightarrow> length block = 16 \<Longrightarrow> \<exists>ct. aes_encrypt_block key block = Inr ct"
  by (simp add: aes_encrypt_block_def expand_key_def Let_def)

subsection \<open>The blob codec\<close>

lemma int_from_bytes_big_acc: "0 \<le> acc \<Longrightarrow> 0 \<le> foldl (\<lambda>acc b. acc * 256 + uint b) acc bs"
  by (induction bs arbitrary: acc) simp_all

lemma int_from_bytes_big_nonneg: "0 \<le> int_from_bytes_big bs"
  by (simp add: int_from_bytes_big_def int_from_bytes_big_acc)

text \<open>A blob is parsed exactly when it passes the five checks, and then the record is read
  off the decoded payload.\<close>

lemma parse_password_blob_Inr_iff:
  "parse_password_blob blob = Inr rec \<longleftrightarrow>
     (\<exists>raw. length blob = 62 \<and> (take 2 blob = ''01'' \<or> take 2 blob = ''03'') \<and>
        b64decode (drop 2 blob) = Some raw \<and> length raw = 44 \<and>
        take 8 (sha256 (take 36 raw)) = take 8 (drop 36 raw) \<and>
        rec = \<lparr>secret = take 32 raw,
               min_seed = int_from_bytes_big (take 2 (drop 32 raw)),
               algo_id = int_from_bytes_big (take 2 (drop 34 raw))\<rparr>)"
  by (auto simp: parse_password_blob_def Let_def split: option.splits)

lemma parse_password_blob_error:
  "parse_password_blob blob = Inl e \<Longrightarrow>
     e \<in> {BlobTooShort, UnsupportedPrefix, PayloadLengthInvalid, Base64Invalid,
          DecodedLengthInvalid, AuthenticityError}"
  by (auto simp: parse_password_blob_def Let_def split: if_splits option.splits)

lemma parse_password_blob_record:
  assumes "parse_password_blob blob = Inr rec"
  shows "length (secret rec) = 32" and "0 \<le> min_seed rec"
  using assms by (auto simp: parse_password_blob_Inr_iff int_from_bytes_big_nonneg)

subsection \<open>The derivation pipeline\<close>

lemma seed_block: "take 11 (replicate 16 x) @ seed @ drop 16 (replicate 16 x) = replicate 11 x @ seed"
  by simp

text \<open>When the four checks pass, the pipeline runs to its end.\<close>

lemma derive_key_from_blob_run:
  assumes "parse_password_blob blob = Inr rec"
    and "algo = algo_id rec"
    and "length seed = 5"
    and "min_seed rec \<le> 255 - uint (seed ! 4)"
  shows "\<exists>ciphertext.
           aes_encrypt_block
             (take 16 (run_hash_chain (secret rec) (255 - uint (seed ! 4) - min_seed rec)))
             (replicate 11 0xFF @ seed) = Inr ciphertext \<and>
           derive_key_from_blob blob seed algo =
             Inr (take 5 ciphertext, 255 - uint (seed ! 4) - min_seed rec,
                  take 16 (run_hash_chain (secret rec) (255 - uint (seed ! 4) - min_seed rec)))"
proof -
  let ?it = "255 - uint (seed ! 4) - min_seed rec"
  let ?key = "take 16 (run_hash_chain (secret rec) ?it)"
  let ?block = "replicate 11 (0xFF :: byte) @ seed"
  from assms(1) have "length (secret rec) = 32"
    by (rule parse_password_blob_record)
  then have "length ?key = 16"
    by (simp add: length_run_hash_chain)
  moreover from assms(3) have "length ?block = 16"
    by simp
  ultimately obtain ct where ct: "aes_encrypt_block ?key ?block = Inr ct"
    using aes_encrypt_block_ok by blast
  with assms have "derive_key_from_blob blob seed algo = Inr (take 5 ct, ?it, ?key)"
    by (simp add: derive_key_from_blob_def Let_def seed_block)
  with ct show ?thesis
    by blast
qed


lemma derive_key_from_blob_error:
  assumes "derive_key_from_blob blob seed algo = Inl e"
  shows "e \<noteq> InvalidKeyLength \<and> e \<noteq> InvalidBlockLength \<and> e \<noteq> UnknownAlgorithm"
proof (cases "parse_password_blob blob")
  case (Inl e')
  with assms have "e = e'"
    by (simp add: derive_key_from_blob_def)
  with Inl show ?thesis
    by (auto dest: parse_password_blob_error)
next
  case (Inr rec)
  show ?thesis
  proof (cases "algo = algo_id rec \<and> length seed = 5 \<and> min_seed rec \<le> 255 - uint (seed ! 4)")
    case True
    with Inr derive_key_from_blob_run [of blob rec algo seed] assms show ?thesis
      by auto
  next
    case False
    with Inr assms show ?thesis
      by (auto simp: derive_key_from_blob_def Let_def split: if_splits)
  qed
qed

subsection \<open>Flipping one bit of a byte\<close>

lemma flip_bit_neq: "k < 8 \<Longrightarrow> (x :: byte) XOR push_bit k 1 \<noteq> x"
proof
  assume k: "k < 8" and eq: "x XOR push_bit k 1 = x"
  from eq have "bit (x XOR push_bit k 1) k = bit x k"
    by simp
  with k show False
    by (simp add: bit_simps)
qed

text \<open>A payload that differs from an authentic one in one checksum byte has the same
  first 36 bytes and another checksum.\<close>

lemma checksum_changed:
  assumes "length raw = 44" and "36 \<le> i" and "i < 44" and "b \<noteq> raw ! i"
  shows "take 36 (raw[i := b]) = take 36 raw"
    and "take 8 (drop 36 (raw[i := b])) \<noteq> take 8 (drop 36 raw)"
proof -
  from assms(2) show "take 36 (raw[i := b]) = take 36 raw"
    by simp
  from assms have "take 8 (drop 36 (raw[i := b])) ! (i - 36) = b"
    and "take 8 (drop 36 raw) ! (i - 36) = raw ! i"
    by simp_all
  with assms(4) show "take 8 (drop 36 (raw[i := b])) \<noteq> take 8 (drop 36 raw)"
    by metis
qed

subsection \<open>Evaluating SHA-256 on a given message\<close>

text \<open>
  Rewrite rules that let the simplifier run \<open>sha256\<close> on a message given byte by byte.
  A numeral of type \<open>word32\<close> is not reduced modulo \<open>2 ^ 32\<close> by itself; \<open>word32_norm\<close>,
  the identity on words, marks where a sum is brought back below \<open>2 ^ 32\<close>.
\<close>

lemma word32_of_nat_mod: "(of_nat (n mod 4294967296) :: word32) = of_nat n"
  by (simp add: word_of_nat_eq_iff take_bit_eq_mod)

lemma word32_norm_numeral: "word32_norm (numeral k) = of_nat (numeral k mod 4294967296)"
  by (simp only: word32_norm_def word32_of_nat_mod of_nat_numeral)

lemma word32_norm_0_1: "word32_norm 0 = 0" "word32_norm 1 = 1"
  by (simp_all add: word32_norm_def)

lemma byte_of_nat_mod: "(of_nat (n mod 256) :: byte) = of_nat n"
  by (simp add: word_of_nat_eq_iff take_bit_eq_mod)

lemma push_bit_take_bit_word32:
  "n \<le> 32 \<Longrightarrow> push_bit (32 - n) (take_bit n x) = push_bit (32 - n) (x :: word32)"
  by (rule bit_word_eqI) (auto simp: bit_simps)

lemma rotr_take_bit:
  "n \<le> 32 \<Longrightarrow> rotr n x = drop_bit n x OR push_bit (32 - n) (take_bit n x)"
  by (simp only: rotr_def push_bit_take_bit_word32)

lemma rotr_0: "rotr n 0 = 0"
  by (simp add: rotr_def)

lemmas rotr_eval = rotr_0 rotr_take_bit [of _ 1] rotr_take_bit [of _ "numeral k"] for k

lemma sha256_round_norm:
  "sha256_round (k, w) (a, b, c, d, e, f, g, h) =
     (let t1 = h + bsig1 e + Ch e f g + k + w;
          t2 = bsig0 a + Maj a b c
      in (word32_norm (t1 + t2), a, b, c, word32_norm (d + t1), e, f, g))"
  by (simp add: word32_norm_def)

lemma schedule_norm:
  "schedule 0 win = []"
  "schedule (Suc n) win =
     hd win # schedule n
       (tl win @ [word32_norm (ssig1 (win ! 14) + win ! 9 + ssig0 (win ! 1) + win ! 0)])"
  "schedule (numeral k) win =
     hd win # schedule (pred_numeral k)
       (tl win @ [word32_norm (ssig1 (win ! 14) + win ! 9 + ssig0 (win ! 1) + win ! 0)])"
  by (simp_all add: numeral_eq_Suc word32_norm_def)

lemma block_words_numeral:
  "block_words (numeral k) bs = be32 (take 4 bs) # block_words (pred_numeral k) (drop 4 bs)"
  by (simp add: numeral_eq_Suc)

lemma add_state_norm:
  "add_state (a, b, c, d, e, f, g, h) (a', b', c', d', e', f', g', h') =
     (word32_norm (a + a'), word32_norm (b + b'), word32_norm (c + c'), word32_norm (d + d'),
      word32_norm (e + e'), word32_norm (f + f'), word32_norm (g + g'), word32_norm (h + h'))"
  by (simp add: word32_norm_def)

lemma ucast_drop_bit_byte:
  "(ucast (drop_bit n (w :: word32)) :: byte) = of_nat (unat w div 2 ^ n mod 256)"
proof -
  have "(ucast (drop_bit n w) :: byte) = of_nat (unat (drop_bit n w))"
    by simp
  also have "unat (drop_bit n w) = unat w div 2 ^ n"
    by (subst unat_drop_bit_eq) (rule drop_bit_eq_div)
  finally show ?thesis
    by (simp only: byte_of_nat_mod)
qed

lemma word32_bytes_unat:
  "word32_bytes w =
     [of_nat (unat w div 16777216 mod 256), of_nat (unat w div 65536 mod 256),
      of_nat (unat w div 256 mod 256), of_nat (unat w mod 256)]"
  using ucast_drop_bit_byte [of 24 w] ucast_drop_bit_byte [of 16 w] ucast_drop_bit_byte [of 8 w]
    ucast_drop_bit_byte [of 0 w]
  by (simp add: word32_bytes_def)

lemma upt_0_8: "[0..<8] = [0, 1, 2, 3, 4, 5, 6, 7]"
  by (simp add: upt_rec)

lemma replicate_pred: "replicate (numeral k) x = x # replicate (pred_numeral k) x"
  by (simp add: numeral_eq_Suc)

lemmas sha256_eval =
  sha256_def sha256_pad_def length_bytes_def upt_0_8 replicate_pred
  sha256_compress_def block_words_numeral be32_def schedule_norm sha256_round_norm
  add_state_norm word32_bytes_unat sha256_K_def sha256_H0_def fold_simps
  rotr_eval word32_norm_numeral word32_norm_0_1
  Ch_def Maj_def bsig0_def bsig1_def ssig0_def ssig1_def Let_def

subsection \<open>Evaluating the cipher on a given key and block\<close>

text \<open>The entries of the S-box, one by one.\<close>

lemma nth_Cons_pred: "(x # xs) ! numeral k = xs ! pred_numeral k"
  by (simp add: numeral_eq_Suc)

lemma SBOX_nth:
  "SBOX ! 0 = 0x63" "SBOX ! 1 = 0x7C" "SBOX ! 2 = 0x77" "SBOX ! 3 = 0x7B"
  "SBOX ! 4 = 0xF2" "SBOX ! 5 = 0x6B" "SBOX ! 6 = 0x6F" "SBOX ! 7 = 0xC5"
  "SBOX ! 8 = 0x30" "SBOX ! 9 = 0x01" "SBOX ! 10 = 0x67" "SBOX ! 11 = 0x2B"
  "SBOX ! 12 = 0xFE" "SBOX ! 13 = 0xD7" "SBOX ! 14 = 0xAB" "SBOX ! 15 = 0x76"
  "SBOX ! 16 = 0xCA" "SBOX ! 17 = 0x82" "SBOX ! 18 = 0xC9" "SBOX ! 19 = 0x7D"
  "SBOX ! 20 = 0xFA" "SBOX ! 21 = 0x59" "SBOX ! 22 = 0x47" "SBOX ! 23 = 0xF0"
  "SBOX ! 24 = 0xAD" "SBOX ! 25 = 0xD4" "SBOX ! 26 = 0xA2" "SBOX ! 27 = 0xAF"
  "SBOX ! 28 = 0x9C" "SBOX ! 29 = 0xA4" "SBOX ! 30 = 0x72" "SBOX ! 31 = 0xC0"
  "SBOX ! 32 = 0xB7" "SBOX ! 33 = 0xFD" "SBOX ! 34 = 0x93" "SBOX ! 35 = 0x26"
  "SBOX ! 36 = 0x36" "SBOX ! 37 = 0x3F" "SBOX ! 38 = 0xF7" "SBOX ! 39 = 0xCC"
  "SBOX ! 40 = 0x34" "SBOX ! 41 = 0xA5" "SBOX ! 42 = 0xE5" "SBOX ! 43 = 0xF1"
  "SBOX ! 44 = 0x71" "SBOX ! 45 = 0xD8" "SBOX ! 46 = 0x31" "SBOX ! 47 = 0x15"
  "SBOX ! 48 = 0x04" "SBOX ! 49 = 0xC7" "SBOX ! 50 = 0x23" "SBOX ! 51 = 0xC3"
  "SBOX ! 52 = 0x18" "SBOX ! 53 = 0x96" "SBOX ! 54 = 0x05" "SBOX ! 55 = 0x9A"
  "SBOX ! 56 = 0x07" "SBOX ! 57 = 0x12" "SBOX ! 58 = 0x80" "SBOX ! 59 = 0xE2"
  "SBOX ! 60 = 0xEB" "SBOX ! 61 = 0x27" "SBOX ! 62 = 0xB2" "SBOX ! 63 = 0x75"
  "SBOX ! 64 = 0x09" "SBOX ! 65 = 0x83" "SBOX ! 66 = 0x2C" "SBOX ! 67 = 0x1A"
  "SBOX ! 68 = 0x1B" "SBOX ! 69 = 0x6E" "SBOX ! 70 = 0x5A" "SBOX ! 71 = 0xA0"
  "SBOX ! 72 = 0x52" "SBOX ! 73 = 0x3B" "SBOX ! 74 = 0xD6" "SBOX ! 75 = 0xB3"
  "SBOX ! 76 = 0x29" "SBOX ! 77 = 0xE3" "SBOX ! 78 = 0x2F" "SBOX ! 79 = 0x84"
  "SBOX ! 80 = 0x53" "SBOX ! 81 = 0xD1" "SBOX ! 82 = 0x00" "SBOX ! 83 = 0xED"
  "SBOX ! 84 = 0x20" "SBOX ! 85 = 0xFC" "SBOX ! 86 = 0xB1" "SBOX ! 87 = 0x5B"
  "SBOX ! 88 = 0x6A" "SBOX ! 89 = 0xCB" "SBOX ! 90 = 0xBE" "SBOX ! 91 = 0x39"
  "SBOX ! 92 = 0x4A" "SBOX ! 93 = 0x4C" "SBOX ! 94 = 0x58" "SBOX ! 95 = 0xCF"
  "SBOX ! 96 = 0xD0" "SBOX ! 97 = 0xEF" "SBOX ! 98 = 0xAA" "SBOX ! 99 = 0xFB"
  "SBOX ! 100 = 0x43" "SBOX ! 101 = 0x4D" "SBOX ! 102 = 0x33" "SBOX ! 103 = 0x85"
  "SBOX ! 104 = 0x45" "SBOX ! 105 = 0xF9" "SBOX ! 106 = 0x02" "SBOX ! 107 = 0x7F"
  "SBOX ! 108 = 0x50" "SBOX ! 109 = 0x3C" "SBOX ! 110 = 0x9F" "SBOX ! 111 = 0xA8"
  "SBOX ! 112 = 0x51" "SBOX ! 113 = 0xA3" "SBOX ! 114 = 0x40" "SBOX ! 115 = 0x8F"
  "SBOX ! 116 = 0x92" "SBOX ! 117 = 0x9D" "SBOX ! 118 = 0x38" "SBOX ! 119 = 0xF5"
  "SBOX ! 120 = 0xBC" "SBOX ! 121 = 0xB6" "SBOX ! 122 = 0xDA" "SBOX ! 123 = 0x21"
  "SBOX ! 124 = 0x10" "SBOX ! 125 = 0xFF" "SBOX ! 126 = 0xF3" "SBOX ! 127 = 0xD2"
  "SBOX ! 128 = 0xCD" "SBOX ! 129 = 0x0C" "SBOX ! 130 = 0x13" "SBOX ! 131 = 0xEC"
  "SBOX ! 132 = 0x5F" "SBOX ! 133 = 0x97" "SBOX ! 134 = 0x44" "SBOX ! 135 = 0x17"
  "SBOX ! 136 = 0xC4" "SBOX ! 137 = 0xA7" "SBOX ! 138 = 0x7E" "SBOX ! 139 = 0x3D"
  "SBOX ! 140 = 0x64" "SBOX ! 141 = 0x5D" "SBOX ! 142 = 0x19" "SBOX ! 143 = 0x73"
  "SBOX ! 144 = 0x60" "SBOX ! 145 = 0x81" "SBOX ! 146 = 0x4F" "SBOX ! 147 = 0xDC"
  "SBOX ! 148 = 0x22" "SBOX ! 149 = 0x2A" "SBOX ! 150 = 0x90" "SBOX ! 151 = 0x88"
  "SBOX ! 152 = 0x46" "SBOX ! 153 = 0xEE" "SBOX ! 154 = 0xB8" "SBOX ! 155 = 0x14"
  "SBOX ! 156 = 0xDE" "SBOX ! 157 = 0x5E" "SBOX ! 158 = 0x0B" "SBOX ! 159 = 0xDB"
  "SBOX ! 160 = 0xE0" "SBOX ! 161 = 0x32" "SBOX ! 162 = 0x3A" "SBOX ! 163 = 0x0A"
  "SBOX ! 164 = 0x49" "SBOX ! 165 = 0x06" "SBOX ! 166 = 0x24" "SBOX ! 167 = 0x5C"
  "SBOX ! 168 = 0xC2" "SBOX ! 169 = 0xD3" "SBOX ! 170 = 0xAC" "SBOX ! 171 = 0x62"
  "SBOX ! 172 = 0x91" "SBOX ! 173 = 0x95" "SBOX ! 174 = 0xE4" "SBOX ! 175 = 0x79"
  "SBOX ! 176 = 0xE7" "SBOX ! 177 = 0xC8" "SBOX ! 178 = 0x37" "SBOX ! 179 = 0x6D"
  "SBOX ! 180 = 0x8D" "SBOX ! 181 = 0xD5" "SBOX ! 182 = 0x4E" "SBOX ! 183 = 0xA9"
  "SBOX ! 184 = 0x6C" "SBOX ! 185 = 0x56" "SBOX ! 186 = 0xF4" "SBOX ! 187 = 0xEA"
  "SBOX ! 188 = 0x65" "SBOX ! 189 = 0x7A" "SBOX ! 190 = 0xAE" "SBOX ! 191 = 0x08"
  "SBOX ! 192 = 0xBA" "SBOX ! 193 = 0x78" "SBOX ! 194 = 0x25" "SBOX ! 195 = 0x2E"
  "SBOX ! 196 = 0x1C" "SBOX ! 197 = 0xA6" "SBOX ! 198 = 0xB4" "SBOX ! 199 = 0xC6"
  "SBOX ! 200 = 0xE8" "SBOX ! 201 = 0xDD" "SBOX ! 202 = 0x74" "SBOX ! 203 = 0x1F"
  "SBOX ! 204 = 0x4B" "SBOX ! 205 = 0xBD" "SBOX ! 206 = 0x8B" "SBOX ! 207 = 0x8A"
  "SBOX ! 208 = 0x70" "SBOX ! 209 = 0x3E" "SBOX ! 210 = 0xB5" "SBOX ! 211 = 0x66"
  "SBOX ! 212 = 0x48" "SBOX ! 213 = 0x03" "SBOX ! 214 = 0xF6" "SBOX ! 215 = 0x0E"
  "SBOX ! 216 = 0x61" "SBOX ! 217 = 0x35" "SBOX ! 218 = 0x57" "SBOX ! 219 = 0xB9"
  "SBOX ! 220 = 0x86" "SBOX ! 221 = 0xC1" "SBOX ! 222 = 0x1D" "SBOX ! 223 = 0x9E"
  "SBOX ! 224 = 0xE1" "SBOX ! 225 = 0xF8" "SBOX ! 226 = 0x98" "SBOX ! 227 = 0x11"
  "SBOX ! 228 = 0x69" "SBOX ! 229 = 0xD9" "SBOX ! 230 = 0x8E" "SBOX ! 231 = 0x94"
  "SBOX ! 232 = 0x9B" "SBOX ! 233 = 0x1E" "SBOX ! 234 = 0x87" "SBOX ! 235 = 0xE9"
  "SBOX ! 236 = 0xCE" "SBOX ! 237 = 0x55" "SBOX ! 238 = 0x28" "SBOX ! 239 = 0xDF"
  "SBOX ! 240 = 0x8C" "SBOX ! 241 = 0xA1" "SBOX ! 242 = 0x89" "SBOX ! 243 = 0x0D"
  "SBOX ! 244 = 0xBF" "SBOX ! 245 = 0xE6" "SBOX ! 246 = 0x42" "SBOX ! 247 = 0x68"
  "SBOX ! 248 = 0x41" "SBOX ! 249 = 0x99" "SBOX ! 250 = 0x2D" "SBOX ! 251 = 0x0F"
  "SBOX ! 252 = 0xB0" "SBOX ! 253 = 0x54" "SBOX ! 254 = 0xBB" "SBOX ! 255 = 0x16"
  by (simp_all only: SBOX_def nth_Cons_0 nth_Cons_pred pred_numeral_simps BitM.simps
      One_nat_def nth_Cons_Suc numeral_One)

lemma SBOX_nth_Suc_0: "SBOX ! Suc 0 = 0x7C"
  by (simp add: SBOX_def)

text \<open>The operations on a state given cell by cell.\<close>


lemma upt_1_4: "[Suc 0..<4] = [Suc 0, Suc (Suc 0), Suc (Suc (Suc 0))]"
  by (simp add: upt_rec)
lemma shift_rows_4x4:
  "shift_rows [[a0, a1, a2, a3], [b0, b1, b2, b3], [c0, c1, c2, c3], [d0, d1, d2, d3]] =
     [[a0, a1, a2, a3], [b1, b2, b3, b0], [c2, c3, c0, c1], [d3, d0, d1, d2]]"
  by (simp add: shift_rows_def upt_1_4)
lemma eight: "(8::nat) = Suc (Suc (Suc (Suc (Suc (Suc (Suc (Suc 0)))))))"
  by simp
lemma gf_mul_2: "gf_mul a 2 = xtime a"
  by (simp only: gf_mul_def eight gf_mul_loop.simps) simp

lemma gf_mul_3: "gf_mul a 3 = xtime a XOR a"
  by (simp only: gf_mul_def eight gf_mul_loop.simps) (simp add: xor.commute)



lemma upt_0_4: "[0..<4] = [0, Suc 0, Suc (Suc 0), Suc (Suc (Suc 0))]"
  by (simp add: upt_rec)

lemma sub_bytes_4x4:
  "sub_bytes [[a0, a1, a2, a3], [b0, b1, b2, b3], [c0, c1, c2, c3], [d0, d1, d2, d3]] =
     [[SBOX ! unat a0, SBOX ! unat a1, SBOX ! unat a2, SBOX ! unat a3],
      [SBOX ! unat b0, SBOX ! unat b1, SBOX ! unat b2, SBOX ! unat b3],
      [SBOX ! unat c0, SBOX ! unat c1, SBOX ! unat c2, SBOX ! unat c3],
      [SBOX ! unat d0, SBOX ! unat d1, SBOX ! unat d2, SBOX ! unat d3]]"
  by (simp add: sub_bytes_def upt_0_4)

lemma mix_columns_4x4:
  "mix_columns [[a0, a1, a2, a3], [b0, b1, b2, b3], [c0, c1, c2, c3], [d0, d1, d2, d3]] =
     [[gf_mul a0 2 XOR gf_mul b0 3 XOR c0 XOR d0, gf_mul a1 2 XOR gf_mul b1 3 XOR c1 XOR d1,
       gf_mul a2 2 XOR gf_mul b2 3 XOR c2 XOR d2, gf_mul a3 2 XOR gf_mul b3 3 XOR c3 XOR d3],
      [a0 XOR gf_mul b0 2 XOR gf_mul c0 3 XOR d0, a1 XOR gf_mul b1 2 XOR gf_mul c1 3 XOR d1,
       a2 XOR gf_mul b2 2 XOR gf_mul c2 3 XOR d2, a3 XOR gf_mul b3 2 XOR gf_mul c3 3 XOR d3],
      [a0 XOR b0 XOR gf_mul c0 2 XOR gf_mul d0 3, a1 XOR b1 XOR gf_mul c1 2 XOR gf_mul d1 3,
       a2 XOR b2 XOR gf_mul c2 2 XOR gf_mul d2 3, a3 XOR b3 XOR gf_mul c3 2 XOR gf_mul d3 3],
      [gf_mul a0 3 XOR b0 XOR c0 XOR gf_mul d0 2, gf_mul a1 3 XOR b1 XOR c1 XOR gf_mul d1 2,
       gf_mul a2 3 XOR b2 XOR c2 XOR gf_mul d2 2, gf_mul a3 3 XOR b3 XOR c3 XOR gf_mul d3 2]]"
  by (simp add: mix_columns_def upt_0_4 Let_def)

lemma add_round_key_4x4:
  "add_round_key [[a0, a1, a2, a3], [b0, b1, b2, b3], [c0, c1, c2, c3], [d0, d1, d2, d3]]
     [k0, k1, k2, k3, k4, k5, k6, k7, k8, k9, k10, k11, k12, k13, k14, k15] =
     [[a0 XOR k0, a1 XOR k4, a2 XOR k8, a3 XOR k12],
      [b0 XOR k1, b1 XOR k5, b2 XOR k9, b3 XOR k13],
      [c0 XOR k2, c1 XOR k6, c2 XOR k10, c3 XOR k14],
      [d0 XOR k3, d1 XOR k7, d2 XOR k11, d3 XOR k15]]"
  by (simp add: add_round_key_def upt_0_4)

lemma bytes_to_state_16:
  "bytes_to_state [k0, k1, k2, k3, k4, k5, k6, k7, k8, k9, k10, k11, k12, k13, k14, k15] =
     [[k0, k4, k8, k12], [k1, k5, k9, k13], [k2, k6, k10, k14], [k3, k7, k11, k15]]"
  by (simp add: bytes_to_state_def upt_0_4)

lemma state_to_bytes_4x4:
  "state_to_bytes [[a0, a1, a2, a3], [b0, b1, b2, b3], [c0, c1, c2, c3], [d0, d1, d2, d3]] =
     [a0, b0, c0, d0, a1, b1, c1, d1, a2, b2, c2, d2, a3, b3, c3, d3]"
  by (simp add: state_to_bytes_def upt_0_4 numeral_eq_Suc)



lemma upt_0_11: "[0..<11] = [0,1,2,3,4,5,6,7,8,9,10]"
  by (simp add: upt_rec)

text \<open>
  The key schedule reads the words number \<open>i - 1\<close> and \<open>i - 4\<close> of a list of \<open>i\<close> words:
  the first and the fourth element of the reversed list.
\<close>

lemma expand_key_step_next_word:
  "expand_key_step i words = words @ [next_word i (words ! (i - 1)) (words ! (i - 4))]"
  by (simp add: expand_key_step_def next_word_def Let_def)

lemma rev_expand_key_step:
  "length words = i \<Longrightarrow> 4 \<le> i \<Longrightarrow>
     rev (expand_key_step i words) = key_step_rev i (rev words)"
  by (simp add: expand_key_step_next_word key_step_rev_def rev_nth)

lemma rev_fold_expand_key_step:
  "length words = a \<Longrightarrow> 4 \<le> a \<Longrightarrow>
     rev (fold expand_key_step [a..<a + n] words) = fold key_step_rev [a..<a + n] (rev words) \<and>
     length (fold expand_key_step [a..<a + n] words) = a + n"
proof (induction n)
  case 0
  then show ?case by simp
next
  case (Suc n)
  then have ih: "rev (fold expand_key_step [a..<a + n] words) =
      fold key_step_rev [a..<a + n] (rev words)"
    and len: "length (fold expand_key_step [a..<a + n] words) = a + n"
    by simp_all
  have upt: "[a..<a + Suc n] = [a..<a + n] @ [a + n]"
    by simp
  from Suc.prems len have "rev (expand_key_step (a + n) (fold expand_key_step [a..<a + n] words)) =
      key_step_rev (a + n) (rev (fold expand_key_step [a..<a + n] words))"
    by (intro rev_expand_key_step) simp_all
  with ih len show ?case
    by (simp only: upt fold_append o_apply fold_simps)
      (simp add: expand_key_step_next_word)
qed

lemma expand_key_rev:
  assumes "length key = 16"
  shows "expand_key key =
     Inr (let words = rev (fold key_step_rev [4..<44]
                             (rev (map (\<lambda>i. take 4 (drop i key)) [0, 4, 8, 12])))
          in map (\<lambda>i. concat (map (\<lambda>j. words ! (i + j)) [0..<4])) (map (\<lambda>k. 4 * k) [0..<11]))"
proof -
  let ?w0 = "map (\<lambda>i. take 4 (drop i key)) [0, 4, 8, 12]"
  have "rev (fold expand_key_step [4..<4 + 40] ?w0) = fold key_step_rev [4..<4 + 40] (rev ?w0)"
    by (rule rev_fold_expand_key_step [THEN conjunct1]) simp_all
  then have "fold expand_key_step [4..<44] ?w0 = rev (fold key_step_rev [4..<44] (rev ?w0))"
    by (simp add: rev_swap)
  with assms show ?thesis
    by (simp add: expand_key_def Let_def)
qed

lemma upt_1_10: "[Suc 0..<10] = [1, 2, 3, 4, 5, 6, 7, 8, 9]"
  by (simp add: upt_rec)

lemmas aes_eval =
  aes_encrypt_block_def expand_key_rev key_step_rev_def next_word_def sub_word_def rot_word_def
  RCON_def SBOX_nth SBOX_nth_Suc_0 upt_0_4 upt_0_11 upt_1_10 fold_simps Let_def
  sub_bytes_4x4 shift_rows_4x4 mix_columns_4x4 add_round_key_4x4 bytes_to_state_16
  state_to_bytes_4x4 gf_mul_2 gf_mul_3 xtime_def

subsection \<open>The sample data, evaluated\<close>

lemma b64_value_table:
  "b64_value CHR ''A'' = Some 0" "b64_value CHR ''B'' = Some 1" "b64_value CHR ''C'' = Some 2"
  "b64_value CHR ''D'' = Some 3" "b64_value CHR ''E'' = Some 4" "b64_value CHR ''F'' = Some 5"
  "b64_value CHR ''G'' = Some 6" "b64_value CHR ''H'' = Some 7" "b64_value CHR ''I'' = Some 8"
  "b64_value CHR ''J'' = Some 9" "b64_value CHR ''K'' = Some 10" "b64_value CHR ''L'' = Some 11"
  "b64_value CHR ''M'' = Some 12" "b64_value CHR ''N'' = Some 13" "b64_value CHR ''O'' = Some 14"
  "b64_value CHR ''P'' = Some 15" "b64_value CHR ''Q'' = Some 16" "b64_value CHR ''R'' = Some 17"
  "b64_value CHR ''S'' = Some 18" "b64_value CHR ''T'' = Some 19" "b64_value CHR ''U'' = Some 20"
  "b64_value CHR ''V'' = Some 21" "b64_value CHR ''W'' = Some 22" "b64_value CHR ''X'' = Some 23"
  "b64_value CHR ''Y'' = Some 24" "b64_value CHR ''Z'' = Some 25" "b64_value CHR ''a'' = Some 26"
  "b64_value CHR ''b'' = Some 27" "b64_value CHR ''c'' = Some 28" "b64_value CHR ''d'' = Some 29"
  "b64_value CHR ''e'' = Some 30" "b64_value CHR ''f'' = Some 31" "b64_value CHR ''g'' = Some 32"
  "b64_value CHR ''h'' = Some 33" "b64_value CHR ''i'' = Some 34" "b64_value CHR ''j'' = Some 35"
  "b64_value CHR ''k'' = Some 36" "b64_value CHR ''l'' = Some 37" "b64_value CHR ''m'' = Some 38"
  "b64_value CHR ''n'' = Some 39" "b64_value CHR ''o'' = Some 40" "b64_value CHR ''p'' = Some 41"
  "b64_value CHR ''q'' = Some 42" "b64_value CHR ''r'' = Some 43" "b64_value CHR ''s'' = Some 44"
  "b64_value CHR ''t'' = Some 45" "b64_value CHR ''u'' = Some 46" "b64_value CHR ''v'' = Some 47"
  "b64_value CHR ''w'' = Some 48" "b64_value CHR ''x'' = Some 49" "b64_value CHR ''y'' = Some 50"
  "b64_value CHR ''z'' = Some 51" "b64_value CHR ''0'' = Some 52" "b64_value CHR ''1'' = Some 53"
  "b64_value CHR ''2'' = Some 54" "b64_value CHR ''3'' = Some 55" "b64_value CHR ''4'' = Some 56"
  "b64_value CHR ''5'' = Some 57" "b64_value CHR ''6'' = Some 58" "b64_value CHR ''7'' = Some 59"
  "b64_value CHR ''8'' = Some 60" "b64_value CHR ''9'' = Some 61" "b64_value CHR ''+'' = Some 62"
  "b64_value CHR ''/'' = Some 63"
  by (simp_all add: b64_value_def b64_alphabet_def)

lemma b64decode_sample:
  "b64decode (drop 2 sample_blob) = Some sample_payload"
  by (simp add: sample_blob_def sample_payload_def b64decode_def b64_value_table)

lemma b64decode_flipped:
  "b64decode (drop 2 flipped_blob) = Some (sample_payload[43 := sample_payload ! 43 XOR push_bit 0 1])"
  by (simp add: flipped_blob_def sample_payload_def b64decode_def b64_value_table)

lemma b64decode_zero:
  "b64decode (drop 2 zero_blob) =
     Some [11, 48, 85, 122, 159, 196, 233, 14, 51, 88, 125, 162, 199, 236, 17, 54, 91, 128,
           165, 202, 239, 20, 57, 94, 131, 168, 205, 242, 23, 60, 97, 134, 0, 0, 0, 1, 208,
           105, 151, 228, 85, 2, 36, 147]"
  by (simp add: zero_blob_def b64decode_def b64_value_table)

text \<open>The test vector of FIPS 180-4 for the message "abc".\<close>

lemma sha256_abc:
  "sha256
     [97, 98, 99] =
     [186, 120, 22, 191, 143, 1, 207, 234, 65, 65, 64, 222, 93, 174, 34, 35, 176, 3, 97,
      163, 150, 23, 122, 156, 180, 16, 255, 97, 242, 0, 21, 173]"
  by (simp del: fold.simps sha256_round.simps add_state.simps schedule.simps add: sha256_eval)

lemma sha256_sample_payload:
  "sha256
     [9, 3, 210, 38, 162, 64, 80, 93, 244, 145, 75, 132, 135, 94, 100, 13, 214, 106, 126,
      171, 90, 246, 157, 134, 172, 251, 72, 44, 65, 252, 91, 181, 0, 245, 0, 135] =
     [90, 221, 102, 237, 240, 164, 8, 91, 159, 37, 151, 37, 159, 226, 194, 254, 9, 107,
      130, 55, 241, 55, 143, 118, 109, 186, 233, 95, 195, 7, 209, 60]"
  by (simp del: fold.simps sha256_round.simps add_state.simps schedule.simps add: sha256_eval)

lemma sha256_zero_payload:
  "sha256
     [11, 48, 85, 122, 159, 196, 233, 14, 51, 88, 125, 162, 199, 236, 17, 54, 91, 128, 165,
      202, 239, 20, 57, 94, 131, 168, 205, 242, 23, 60, 97, 134, 0, 0, 0, 1] =
     [208, 105, 151, 228, 85, 2, 36, 147, 3, 115, 159, 36, 113, 225, 86, 247, 165, 110, 81,
      217, 134, 245, 180, 59, 1, 17, 144, 67, 108, 19, 118, 81]"
  by (simp del: fold.simps sha256_round.simps add_state.simps schedule.simps add: sha256_eval)

lemma sha256_sample_chain_1:
  "sha256
     [9, 3, 210, 38, 162, 64, 80, 93, 244, 145, 75, 132, 135, 94, 100, 13, 214, 106, 126,
      171, 90, 246, 157, 134, 172, 251, 72, 44, 65, 252, 91, 181] =
     [201, 180, 86, 82, 70, 169, 126, 195, 2, 36, 64, 133, 73, 110, 237, 184, 128, 175, 95,
      233, 77, 96, 69, 45, 243, 54, 52, 248, 145, 6, 230, 233]"
  by (simp del: fold.simps sha256_round.simps add_state.simps schedule.simps add: sha256_eval)

lemma sha256_sample_chain_2:
  "sha256
     [201, 180, 86, 82, 70, 169, 126, 195, 2, 36, 64, 133, 73, 110, 237, 184, 128, 175, 95,
      233, 77, 96, 69, 45, 243, 54, 52, 248, 145, 6, 230, 233] =
     [124, 89, 68, 100, 34, 67, 53, 133, 209, 169, 145, 181, 56, 136, 109, 84, 170, 167,
      128, 39, 46, 255, 199, 218, 93, 253, 184, 178, 4, 124, 213, 73]"
  by (simp del: fold.simps sha256_round.simps add_state.simps schedule.simps add: sha256_eval)

lemma sha256_sample_chain_3:
  "sha256
     [124, 89, 68, 100, 34, 67, 53, 133, 209, 169, 145, 181, 56, 136, 109, 84, 170, 167,
      128, 39, 46, 255, 199, 218, 93, 253, 184, 178, 4, 124, 213, 73] =
     [72, 105, 83, 39, 153, 117, 224, 240, 163, 148, 156, 187, 139, 118, 51, 251, 223, 95,
      19, 188, 91, 27, 171, 26, 180, 179, 163, 137, 181, 29, 80, 204]"
  by (simp del: fold.simps sha256_round.simps add_state.simps schedule.simps add: sha256_eval)

lemma sha256_sample_chain_4:
  "sha256
     [72, 105, 83, 39, 153, 117, 224, 240, 163, 148, 156, 187, 139, 118, 51, 251, 223, 95,
      19, 188, 91, 27, 171, 26, 180, 179, 163, 137, 181, 29, 80, 204] =
     [223, 127, 100, 210, 221, 218, 193, 161, 143, 27, 77, 74, 25, 22, 16, 249, 158, 87,
      135, 89, 8, 41, 195, 197, 94, 148, 81, 246, 239, 227, 171, 138]"
  by (simp del: fold.simps sha256_round.simps add_state.simps schedule.simps add: sha256_eval)

lemma parse_sample_blob: "parse_password_blob sample_blob = Inr sample_record"
proof -
  have "length sample_blob = 62" and "take 2 sample_blob = ''01''"
    by (simp_all add: sample_blob_def)
  moreover note b64decode_sample
  moreover have "length sample_payload = 44"
    by (simp add: sample_payload_def)
  moreover have "take 8 (sha256 (take 36 sample_payload)) = take 8 (drop 36 sample_payload)"
    by (simp add: sample_payload_def sha256_sample_payload)
  moreover have "sample_record =
      \<lparr>secret = take 32 sample_payload,
       min_seed = int_from_bytes_big (take 2 (drop 32 sample_payload)),
       algo_id = int_from_bytes_big (take 2 (drop 34 sample_payload))\<rparr>"
    by (simp add: sample_payload_def sample_record_def int_from_bytes_big_def)
  ultimately show ?thesis
    unfolding parse_password_blob_Inr_iff by blast
qed

lemma parse_zero_blob: "parse_password_blob zero_blob = Inr zero_record"
  unfolding parse_password_blob_Inr_iff
  by (simp add: b64decode_zero sha256_zero_payload zero_record_def int_from_bytes_big_def)
    (simp add: zero_blob_def)

lemma sample_record_fields:
  "min_seed sample_record = 245" "algo_id sample_record = 0x87"
  by (simp_all add: sample_record_def)

lemma zero_record_fields:
  "min_seed zero_record = 0" "algo_id zero_record = 1"
  by (simp_all add: zero_record_def)

lemma run_hash_chain_sample:
  "run_hash_chain (secret sample_record) 4 =
     [223, 127, 100, 210, 221, 218, 193, 161, 143, 27, 77, 74, 25, 22, 16, 249, 158, 87,
      135, 89, 8, 41, 195, 197, 94, 148, 81, 246, 239, 227, 171, 138]"
  by (simp add: run_hash_chain_funpow eval_nat_numeral sample_record_def
      sha256_sample_chain_1 sha256_sample_chain_2 sha256_sample_chain_3 sha256_sample_chain_4)

lemma derive_sample:
  "derive_key_from_blob sample_blob sample_seed 0x87 =
     Inr ([0xEF, 0xC9, 0x7C, 0xA6, 0xA6], 4,
          [223, 127, 100, 210, 221, 218, 193, 161, 143, 27, 77, 74, 25, 22, 16, 249])"
  by (simp del: fold.simps
      add: derive_key_from_blob_def parse_sample_blob sample_record_fields run_hash_chain_sample
        sample_seed_def replicate_pred aes_eval)

section \<open>Properties\<close>

text \<open>
  C1. On the FIPS-197 reference inputs, key 000102030405060708090a0b0c0d0e0f and plaintext
  00112233445566778899aabbccddeeff, \<open>aes_encrypt_block\<close> returns exactly the ciphertext
  69c4e0d86a7b0430d8cdb78070b4c55a.
\<close>

theorem aes_fips197_vector:
  "aes_encrypt_block
     [0x00, 0x01, 0x02, 0x03, 0x04, 0x05, 0x06, 0x07, 0x08, 0x09, 0x0a, 0x0b, 0x0c, 0x0d, 0x0e, 0x0f]
     [0x00, 0x11, 0x22, 0x33, 0x44, 0x55, 0x66, 0x77, 0x88, 0x99, 0xaa, 0xbb, 0xcc, 0xdd, 0xee, 0xff]
   = Inr [0x69, 0xc4, 0xe0, 0xd8, 0x6a, 0x7b, 0x04, 0x30, 0xd8, 0xcd, 0xb7, 0x80, 0x70, 0xb4, 0xc5, 0x5a]"
  by (simp del: fold.simps add: aes_eval)

text \<open>
  C2. For every blob that parses to a record and every seed that pass the algorithm, seed
  length and \<open>min_seed\<close> checks, \<open>derive_key_from_blob\<close> computes the digest
  \<open>run_hash_chain (secret record) iterations\<close> with \<open>iterations = 255 - seed[4] - min_seed\<close>,
  takes the AES key as its first 16 bytes, builds a 16-byte block whose bytes 0..10 are all
  0xFF and whose bytes 11..15 are the seed, and returns the first 5 bytes of
  \<open>aes_encrypt_block aes_key block\<close> together with that iteration count and that key.
\<close>

theorem derive_key_from_blob_pipeline:
  assumes "parse_password_blob blob = Inr rec"
    and "algo = algo_id rec"
    and "length seed = 5"
    and "min_seed rec \<le> 255 - uint (seed ! 4)"
  shows "\<exists>iterations digest aes_key block ciphertext.
           iterations = 255 - uint (seed ! 4) - min_seed rec \<and>
           digest = run_hash_chain (secret rec) iterations \<and>
           aes_key = take 16 digest \<and>
           length block = 16 \<and>
           take 11 block = replicate 11 0xFF \<and>
           drop 11 block = seed \<and>
           aes_encrypt_block aes_key block = Inr ciphertext \<and>
           derive_key_from_blob blob seed algo = Inr (take 5 ciphertext, iterations, aes_key)"
proof -
  from derive_key_from_blob_run [OF assms] obtain ciphertext where
    "aes_encrypt_block
       (take 16 (run_hash_chain (secret rec) (255 - uint (seed ! 4) - min_seed rec)))
       (replicate 11 0xFF @ seed) = Inr ciphertext"
    and "derive_key_from_blob blob seed algo =
       Inr (take 5 ciphertext, 255 - uint (seed ! 4) - min_seed rec,
            take 16 (run_hash_chain (secret rec) (255 - uint (seed ! 4) - min_seed rec)))"
    by blast
  moreover from assms(3) have "length (replicate 11 (0xFF :: byte) @ seed) = 16"
    and "take 11 (replicate 11 (0xFF :: byte) @ seed) = replicate 11 0xFF"
    and "drop 11 (replicate 11 (0xFF :: byte) @ seed) = seed"
    by simp_all
  ultimately show ?thesis
    by blast
qed

theorem derive_key_from_blob_pipeline_witness:
  "parse_password_blob sample_blob = Inr sample_record \<and>
   (0x87 :: int) = algo_id sample_record \<and>
   length sample_seed = 5 \<and>
   min_seed sample_record \<le> 255 - uint (sample_seed ! 4) \<and>
   (\<exists>iterations digest aes_key block ciphertext.
      iterations = 255 - uint (sample_seed ! 4) - min_seed sample_record \<and>
      digest = run_hash_chain (secret sample_record) iterations \<and>
      aes_key = take 16 digest \<and>
      length block = 16 \<and>
      take 11 block = replicate 11 0xFF \<and>
      drop 11 block = sample_seed \<and>
      aes_encrypt_block aes_key block = Inr ciphertext \<and>
      derive_key_from_blob sample_blob sample_seed 0x87 =
        Inr (take 5 ciphertext, iterations, aes_key))"
proof -
  have h1: "parse_password_blob sample_blob = Inr sample_record"
    by (rule parse_sample_blob)
  have h2: "(0x87 :: int) = algo_id sample_record"
    by (simp add: sample_record_fields)
  have h3: "length sample_seed = 5"
    by (simp add: sample_seed_def)
  have h4: "min_seed sample_record \<le> 255 - uint (sample_seed ! 4)"
    by (simp add: sample_record_fields sample_seed_def)
  from h1 h2 h3 h4 derive_key_from_blob_pipeline [OF h1 h2 h3 h4] show ?thesis
    by (intro conjI)
qed

text \<open>
  C3. For every blob that parses to a record with the requested algorithm id and every seed
  of exactly 5 bytes, \<open>derive_key_from_blob\<close> fails with \<open>SeedRejected\<close> if and only if
  \<open>min_seed > 255 - seed[4]\<close>; otherwise it succeeds and returns
  \<open>iterations = (255 - seed[4]) - min_seed\<close>. In particular, when \<open>seed[4] = 0xFF\<close>: a positive
  \<open>min_seed\<close> gives \<open>SeedRejected\<close>, and \<open>min_seed = 0\<close> gives 0 iterations.
\<close>

theorem seed_rejected_iff:
  assumes "parse_password_blob blob = Inr rec"
    and "algo = algo_id rec"
    and "length seed = 5"
  shows "(derive_key_from_blob blob seed algo = Inl SeedRejected \<longleftrightarrow>
            min_seed rec > 255 - uint (seed ! 4)) \<and>
         (\<not> min_seed rec > 255 - uint (seed ! 4) \<longrightarrow>
            (\<exists>mac aes_key. derive_key_from_blob blob seed algo =
               Inr (mac, (255 - uint (seed ! 4)) - min_seed rec, aes_key))) \<and>
         (seed ! 4 = 0xFF \<and> min_seed rec > 0 \<longrightarrow>
            derive_key_from_blob blob seed algo = Inl SeedRejected) \<and>
         (seed ! 4 = 0xFF \<and> min_seed rec = 0 \<longrightarrow>
            (\<exists>mac aes_key. derive_key_from_blob blob seed algo = Inr (mac, 0, aes_key)))"
proof -
  have rejected: "derive_key_from_blob blob seed algo = Inl SeedRejected"
    if "min_seed rec > 255 - uint (seed ! 4)"
    using that assms by (simp add: derive_key_from_blob_def Let_def)
  have accepted: "\<exists>mac aes_key. derive_key_from_blob blob seed algo =
      Inr (mac, (255 - uint (seed ! 4)) - min_seed rec, aes_key)"
    if "\<not> min_seed rec > 255 - uint (seed ! 4)"
  proof -
    from that have "min_seed rec \<le> 255 - uint (seed ! 4)"
      by simp
    from derive_key_from_blob_run [OF assms this] show ?thesis
      by blast
  qed
  have iff: "derive_key_from_blob blob seed algo = Inl SeedRejected \<longleftrightarrow>
      min_seed rec > 255 - uint (seed ! 4)"
    using rejected accepted by (cases "min_seed rec > 255 - uint (seed ! 4)") auto
  have tail: "255 - uint (seed ! 4) = 0" if "seed ! 4 = 0xFF"
    using that by simp
  show ?thesis
  proof (intro conjI impI)
    show "derive_key_from_blob blob seed algo = Inl SeedRejected \<longleftrightarrow>
        min_seed rec > 255 - uint (seed ! 4)"
      by (rule iff)
    show "\<exists>mac aes_key. derive_key_from_blob blob seed algo =
        Inr (mac, (255 - uint (seed ! 4)) - min_seed rec, aes_key)"
      if "\<not> min_seed rec > 255 - uint (seed ! 4)"
      using that by (rule accepted)
    show "derive_key_from_blob blob seed algo = Inl SeedRejected"
      if "seed ! 4 = 0xFF \<and> min_seed rec > 0"
      using that tail by (intro rejected) simp
    show "\<exists>mac aes_key. derive_key_from_blob blob seed algo = Inr (mac, 0, aes_key)"
      if "seed ! 4 = 0xFF \<and> min_seed rec = 0"
    proof -
      from that tail have "\<not> min_seed rec > 255 - uint (seed ! 4)"
        and "(255 - uint (seed ! 4)) - min_seed rec = 0"
        by simp_all
      with accepted show ?thesis
        by metis
    qed
  qed
qed

text \<open>The witness: the sample blob (\<open>min_seed = 245\<close>) with the seed tails 0x06 and 0xFF,
  and a blob whose \<open>min_seed\<close> is 0 with the seed tail 0xFF.\<close>

theorem seed_rejected_iff_witness:
  "parse_password_blob sample_blob = Inr sample_record \<and>
   parse_password_blob zero_blob = Inr zero_record \<and>
   (\<exists>mac aes_key. derive_key_from_blob sample_blob sample_seed 0x87 = Inr (mac, 4, aes_key)) \<and>
   derive_key_from_blob sample_blob [0, 0, 0, 0, 0xFF] 0x87 = Inl SeedRejected \<and>
   (\<exists>mac aes_key. derive_key_from_blob zero_blob [0, 0, 0, 0, 0xFF] 1 = Inr (mac, 0, aes_key))"
proof -
  have a: "(0x87 :: int) = algo_id sample_record" and z: "(1 :: int) = algo_id zero_record"
    by (simp_all add: sample_record_fields zero_record_fields)
  have l: "length sample_seed = 5" and l': "length [0, 0, 0, 0, 0xFF :: byte] = 5"
    by (simp_all add: sample_seed_def)
  note s1 = seed_rejected_iff [OF parse_sample_blob a l]
  note s2 = seed_rejected_iff [OF parse_sample_blob a l']
  note s3 = seed_rejected_iff [OF parse_zero_blob z l']
  have "\<exists>mac aes_key. derive_key_from_blob sample_blob sample_seed 0x87 = Inr (mac, 4, aes_key)"
    using s1 by (simp add: sample_record_fields sample_seed_def)
  moreover have "derive_key_from_blob sample_blob [0, 0, 0, 0, 0xFF] 0x87 = Inl SeedRejected"
    using s2 by (simp add: sample_record_fields)
  moreover have
    "\<exists>mac aes_key. derive_key_from_blob zero_blob [0, 0, 0, 0, 0xFF] 1 = Inr (mac, 0, aes_key)"
    using s3 by (simp add: zero_record_fields)
  ultimately show ?thesis
    using parse_sample_blob parse_zero_blob by (intro conjI)
qed

text \<open>
  C4. For every byte string \<open>secret\<close> and every non-negative integer \<open>n\<close>, the hash chain
  satisfies the recurrence: zero iterations return the secret unchanged, one iteration
  returns \<open>sha256 secret\<close>, and \<open>n + 1\<close> iterations return \<open>sha256\<close> of the result of \<open>n\<close>
  iterations.
\<close>

theorem run_hash_chain_recurrence:
  assumes "0 \<le> n"
  shows "run_hash_chain s 0 = s \<and>
         run_hash_chain s 1 = sha256 s \<and>
         run_hash_chain s (n + 1) = sha256 (run_hash_chain s n)"
proof -
  from assms have "nat (n + 1) = Suc (nat n)"
    by simp
  then show ?thesis
    by (simp add: run_hash_chain_funpow)
qed

theorem run_hash_chain_recurrence_witness:
  "(0::int) \<le> 3 \<and>
   run_hash_chain [1, 2] 0 = [1, 2] \<and>
   run_hash_chain [1, 2] 1 = sha256 [1, 2] \<and>
   run_hash_chain [1, 2] (3 + 1) = sha256 (run_hash_chain [1, 2] 3)"
proof -
  have h: "(0::int) \<le> 3"
    by simp
  from run_hash_chain_recurrence [OF h, of "[1, 2]"] h show ?thesis
    by blast
qed

text \<open>
  C5. For every blob that passes the length, prefix, Base64 and 44-byte checks,
  \<open>parse_password_blob\<close> fails with \<open>AuthenticityError\<close> if and only if the last 8 bytes of the
  decoded payload differ from the first 8 bytes of \<open>sha256\<close> of its first 36 bytes.
  Consequently, when the blob parses, every blob that passes the same checks and whose
  payload is the parsed one with a single bit flipped in one of the 8 checksum bytes
  (the flipped payload encoded again) fails with \<open>AuthenticityError\<close>.
\<close>

theorem checksum_authenticity:
  assumes "\<not> length blob < 62"
    and "take 2 blob = ''01'' \<or> take 2 blob = ''03''"
    and "length (drop 2 blob) = 60"
    and "b64decode (drop 2 blob) = Some raw"
    and "length raw = 44"
  shows "(parse_password_blob blob = Inl AuthenticityError \<longleftrightarrow>
            take 8 (drop 36 raw) \<noteq> take 8 (sha256 (take 36 raw))) \<and>
         (\<forall>blob' i k.
            (\<exists>rec. parse_password_blob blob = Inr rec) \<and>
            36 \<le> i \<and> i < 44 \<and> k < 8 \<and>
            \<not> length blob' < 62 \<and>
            (take 2 blob' = ''01'' \<or> take 2 blob' = ''03'') \<and>
            length (drop 2 blob') = 60 \<and>
            b64decode (drop 2 blob') = Some (raw[i := raw ! i XOR push_bit k 1]) \<longrightarrow>
            parse_password_blob blob' = Inl AuthenticityError)"
proof (intro conjI allI impI)
  from assms show "parse_password_blob blob = Inl AuthenticityError \<longleftrightarrow>
      take 8 (drop 36 raw) \<noteq> take 8 (sha256 (take 36 raw))"
    by (auto simp: parse_password_blob_def Let_def)
next
  fix blob' i k
  assume h: "(\<exists>rec. parse_password_blob blob = Inr rec) \<and>
      36 \<le> i \<and> i < 44 \<and> k < 8 \<and>
      \<not> length blob' < 62 \<and>
      (take 2 blob' = ''01'' \<or> take 2 blob' = ''03'') \<and>
      length (drop 2 blob') = 60 \<and>
      b64decode (drop 2 blob') = Some (raw[i := raw ! i XOR push_bit k 1])"
  let ?raw' = "raw[i := raw ! i XOR push_bit k 1]"
  from h assms(4) have tag: "take 8 (sha256 (take 36 raw)) = take 8 (drop 36 raw)"
    by (auto simp: parse_password_blob_Inr_iff)
  from h have i1: "36 \<le> i" and i2: "i < 44" and k: "k < 8"
    by simp_all
  from k have neq: "raw ! i XOR push_bit k 1 \<noteq> raw ! i"
    by (rule flip_bit_neq)
  from checksum_changed [OF assms(5) i1 i2 neq] have "take 36 ?raw' = take 36 raw"
    and "take 8 (drop 36 ?raw') \<noteq> take 8 (drop 36 raw)"
    by simp_all
  with tag have "take 8 (sha256 (take 36 ?raw')) \<noteq> take 8 (drop 36 ?raw')"
    by simp
  with h assms(5) show "parse_password_blob blob' = Inl AuthenticityError"
    by (simp add: parse_password_blob_def Let_def)
qed

text \<open>The witness: the sample blob, and the blob that encodes its payload with the lowest
  bit of the last checksum byte flipped.\<close>

theorem checksum_authenticity_witness:
  "\<not> length sample_blob < 62 \<and>
   (take 2 sample_blob = ''01'' \<or> take 2 sample_blob = ''03'') \<and>
   length (drop 2 sample_blob) = 60 \<and>
   b64decode (drop 2 sample_blob) = Some sample_payload \<and>
   length sample_payload = 44 \<and>
   parse_password_blob sample_blob = Inr sample_record \<and>
   b64decode (drop 2 flipped_blob) =
     Some (sample_payload[43 := sample_payload ! 43 XOR push_bit 0 1]) \<and>
   parse_password_blob flipped_blob = Inl AuthenticityError"
proof -
  have h1: "\<not> length sample_blob < 62"
    and h2: "take 2 sample_blob = ''01'' \<or> take 2 sample_blob = ''03''"
    and h3: "length (drop 2 sample_blob) = 60"
    by (simp_all add: sample_blob_def)
  have h5: "length sample_payload = 44"
    by (simp add: sample_payload_def)
  have f: "\<not> length flipped_blob < 62 \<and>
      (take 2 flipped_blob = ''01'' \<or> take 2 flipped_blob = ''03'') \<and>
      length (drop 2 flipped_blob) = 60"
    by (simp add: flipped_blob_def)
  from checksum_authenticity [OF h1 h2 h3 b64decode_sample h5]
  have "\<forall>blob' i k.
      (\<exists>rec. parse_password_blob sample_blob = Inr rec) \<and>
      36 \<le> i \<and> i < 44 \<and> k < 8 \<and>
      \<not> length blob' < 62 \<and>
      (take 2 blob' = ''01'' \<or> take 2 blob' = ''03'') \<and>
      length (drop 2 blob') = 60 \<and>
      b64decode (drop 2 blob') = Some (sample_payload[i := sample_payload ! i XOR push_bit k 1]) \<longrightarrow>
      parse_password_blob blob' = Inl AuthenticityError"
    by (rule conjunct2)
  from this [rule_format, of 43 0 flipped_blob] parse_sample_blob f b64decode_flipped
  have "parse_password_blob flipped_blob = Inl AuthenticityError"
    by simp
  with h1 h2 h3 h5 b64decode_sample parse_sample_blob b64decode_flipped show ?thesis
    by (intro conjI)
qed

text \<open>
  C6, as the spec states it, fails: a blob of more than 62 characters whose first 62
  characters are a valid blob is rejected, because the payload \<^verbatim>\<open>blob[2:]\<close> must have exactly
  60 characters. The sample blob followed by one more character is such a blob.
\<close>

theorem blob_length_counterexample:
  "62 \<le> length (sample_blob @ ''A'') \<and>
   take 2 (sample_blob @ ''A'') = ''01'' \<and>
   b64decode (take 60 (drop 2 (sample_blob @ ''A''))) = Some sample_payload \<and>
   length sample_payload = 44 \<and>
   take 8 (sha256 (take 36 sample_payload)) = take 8 (drop 36 sample_payload) \<and>
   parse_password_blob (sample_blob @ ''A'') = Inl PayloadLengthInvalid"
proof -
  have "take 60 (drop 2 (sample_blob @ ''A'')) = drop 2 sample_blob"
    by (simp add: sample_blob_def)
  then have "b64decode (take 60 (drop 2 (sample_blob @ ''A''))) = Some sample_payload"
    by (simp only: b64decode_sample)
  moreover have "take 8 (sha256 (take 36 sample_payload)) = take 8 (drop 36 sample_payload)"
    by (simp add: sample_payload_def sha256_sample_payload)
  moreover have "length sample_payload = 44"
    by (simp add: sample_payload_def)
  moreover have "62 \<le> length (sample_blob @ ''A'')" and "take 2 (sample_blob @ ''A'') = ''01''"
    and "parse_password_blob (sample_blob @ ''A'') = Inl PayloadLengthInvalid"
    by (simp_all add: sample_blob_def parse_password_blob_def)
  ultimately show ?thesis
    by (intro conjI)
qed

text \<open>
  C6, amended. \<open>parse_password_blob\<close> rejects a blob for its length when it is shorter than
  62 characters (\<open>BlobTooShort\<close>) and, once the prefix is accepted, when it is longer than 62
  characters (the payload must be exactly 60 characters); every blob of exactly 62
  characters whose first 2 characters are a valid prefix and whose following 60 characters
  are valid Base64 decoding to 44 bytes with a correct checksum parses successfully.
\<close>

theorem blob_length_checks:
  "(parse_password_blob blob = Inl BlobTooShort \<longleftrightarrow> length blob < 62) \<and>
   (parse_password_blob blob = Inl PayloadLengthInvalid \<longleftrightarrow>
      62 < length blob \<and> (take 2 blob = ''01'' \<or> take 2 blob = ''03'')) \<and>
   (length blob = 62 \<and> (take 2 blob = ''01'' \<or> take 2 blob = ''03'') \<and>
    b64decode (drop 2 blob) = Some raw \<and> length raw = 44 \<and>
    take 8 (sha256 (take 36 raw)) = take 8 (drop 36 raw) \<longrightarrow>
      parse_password_blob blob =
        Inr \<lparr>secret = take 32 raw,
             min_seed = int_from_bytes_big (take 2 (drop 32 raw)),
             algo_id = int_from_bytes_big (take 2 (drop 34 raw))\<rparr>)"
proof (intro conjI impI)
  show "parse_password_blob blob = Inl BlobTooShort \<longleftrightarrow> length blob < 62"
    by (auto simp: parse_password_blob_def Let_def split: option.splits)
  show "parse_password_blob blob = Inl PayloadLengthInvalid \<longleftrightarrow>
      62 < length blob \<and> (take 2 blob = ''01'' \<or> take 2 blob = ''03'')"
    by (auto simp: parse_password_blob_def Let_def split: option.splits)
  show "parse_password_blob blob =
      Inr \<lparr>secret = take 32 raw,
           min_seed = int_from_bytes_big (take 2 (drop 32 raw)),
           algo_id = int_from_bytes_big (take 2 (drop 34 raw))\<rparr>"
    if "length blob = 62 \<and> (take 2 blob = ''01'' \<or> take 2 blob = ''03'') \<and>
      b64decode (drop 2 blob) = Some raw \<and> length raw = 44 \<and>
      take 8 (sha256 (take 36 raw)) = take 8 (drop 36 raw)"
    using that unfolding parse_password_blob_Inr_iff by blast
qed

theorem blob_length_checks_witness:
  "length sample_blob = 62 \<and> (take 2 sample_blob = ''01'' \<or> take 2 sample_blob = ''03'') \<and>
   b64decode (drop 2 sample_blob) = Some sample_payload \<and> length sample_payload = 44 \<and>
   take 8 (sha256 (take 36 sample_payload)) = take 8 (drop 36 sample_payload) \<and>
   parse_password_blob sample_blob =
     Inr \<lparr>secret = take 32 sample_payload,
          min_seed = int_from_bytes_big (take 2 (drop 32 sample_payload)),
          algo_id = int_from_bytes_big (take 2 (drop 34 sample_payload))\<rparr>"
proof -
  have h: "length sample_blob = 62 \<and> (take 2 sample_blob = ''01'' \<or> take 2 sample_blob = ''03'') \<and>
      b64decode (drop 2 sample_blob) = Some sample_payload \<and> length sample_payload = 44 \<and>
      take 8 (sha256 (take 36 sample_payload)) = take 8 (drop 36 sample_payload)"
  proof (intro conjI)
    show "length sample_blob = 62" and "take 2 sample_blob = ''01'' \<or> take 2 sample_blob = ''03''"
      by (simp_all add: sample_blob_def)
    show "b64decode (drop 2 sample_blob) = Some sample_payload"
      by (rule b64decode_sample)
    show "length sample_payload = 44"
      by (simp add: sample_payload_def)
    show "take 8 (sha256 (take 36 sample_payload)) = take 8 (drop 36 sample_payload)"
      by (simp add: sample_payload_def sha256_sample_payload)
  qed
  from blob_length_checks [of sample_blob sample_payload] h
  have "parse_password_blob sample_blob =
      Inr \<lparr>secret = take 32 sample_payload,
           min_seed = int_from_bytes_big (take 2 (drop 32 sample_payload)),
           algo_id = int_from_bytes_big (take 2 (drop 34 sample_payload))\<rparr>"
    by blast
  with h show ?thesis
    by blast
qed

text \<open>
  C7, as the spec states it, fails: an algorithm id that is present in the registry with
  the empty string as its blob is reported as \<open>UnknownAlgorithm\<close>, by the test
  \<^verbatim>\<open>if not blob\<close>.
\<close>

theorem unknown_algorithm_counterexample:
  "[5 \<mapsto> ''''] (5 :: int) \<noteq> None \<and>
   derive_key_from_algo (map_of PASSWORD_MAP) 5 [1, 2, 3, 4, 5] (Some [5 \<mapsto> '''']) =
     Inl UnknownAlgorithm"
  by (simp add: derive_key_from_algo_def)

text \<open>
  C7, amended. For every algorithm id, seed and registry, \<open>derive_key_from_algo\<close> fails with
  \<open>UnknownAlgorithm\<close> if and only if the id is absent from the registry or registered with
  the empty string; whenever the id is registered with a non-empty blob, the result is that
  of \<open>derive_key_from_blob\<close> on that blob, so that any failure then comes from parsing or
  derivation.
\<close>

theorem unknown_algorithm_iff:
  "(derive_key_from_algo module_map algo seed (Some registry) = Inl UnknownAlgorithm \<longleftrightarrow>
      registry algo = None \<or> registry algo = Some []) \<and>
   (\<forall>blob. registry algo = Some blob \<and> blob \<noteq> [] \<longrightarrow>
      derive_key_from_algo module_map algo seed (Some registry) =
        derive_key_from_blob blob seed algo)"
proof -
  have "derive_key_from_blob blob seed algo \<noteq> Inl UnknownAlgorithm" for blob
    using derive_key_from_blob_error [of blob seed algo UnknownAlgorithm] by blast
  then show ?thesis
    by (auto simp: derive_key_from_algo_def split: option.splits)
qed

theorem unknown_algorithm_iff_witness:
  "[0x87 \<mapsto> sample_blob] (0x87 :: int) = Some sample_blob \<and> sample_blob \<noteq> [] \<and>
   derive_key_from_algo (map_of PASSWORD_MAP) 0x87 sample_seed (Some [0x87 \<mapsto> sample_blob]) =
     derive_key_from_blob sample_blob sample_seed 0x87"
proof -
  have h: "[0x87 \<mapsto> sample_blob] (0x87 :: int) = Some sample_blob \<and> sample_blob \<noteq> []"
    by (simp add: sample_blob_def)
  from unknown_algorithm_iff [of "map_of PASSWORD_MAP" "0x87" sample_seed "[0x87 \<mapsto> sample_blob]"] h
  have "derive_key_from_algo (map_of PASSWORD_MAP) 0x87 sample_seed (Some [0x87 \<mapsto> sample_blob]) =
      derive_key_from_blob sample_blob sample_seed 0x87"
    by blast
  with h show ?thesis
    by blast
qed

text \<open>
  C8. Whenever the blob parses and the algorithm, seed length and \<open>min_seed\<close> checks pass,
  the key handed to \<open>aes_encrypt_block\<close> has exactly 16 bytes and so has the block; the
  errors \<open>InvalidKeyLength\<close> and \<open>InvalidBlockLength\<close> are returned by neither
  \<open>derive_key_from_blob\<close> nor \<open>derive_key_from_algo\<close>, on any input.
\<close>

theorem length_errors_unreachable:
  "(\<forall>rec. parse_password_blob blob = Inr rec \<and> algo = algo_id rec \<and> length seed = 5 \<and>
      min_seed rec \<le> 255 - uint (seed ! 4) \<longrightarrow>
      length (take 16 (run_hash_chain (secret rec) (255 - uint (seed ! 4) - min_seed rec))) = 16 \<and>
      length (take 11 (replicate 16 (0xFF :: byte)) @ seed @ drop 16 (replicate 16 (0xFF :: byte)))
        = 16) \<and>
   derive_key_from_blob blob seed algo \<noteq> Inl InvalidKeyLength \<and>
   derive_key_from_blob blob seed algo \<noteq> Inl InvalidBlockLength \<and>
   derive_key_from_algo module_map algo seed password_map \<noteq> Inl InvalidKeyLength \<and>
   derive_key_from_algo module_map algo seed password_map \<noteq> Inl InvalidBlockLength"
proof -
  have lengths: "length (take 16 (run_hash_chain (secret rec) n)) = 16 \<and>
      length (take 11 (replicate 16 (0xFF :: byte)) @ seed @ drop 16 (replicate 16 (0xFF :: byte)))
        = 16"
    if "parse_password_blob blob = Inr rec" and "length seed = 5" for rec n
  proof -
    from that(1) have "length (secret rec) = 32"
      by (rule parse_password_blob_record)
    with that(2) show ?thesis
      by (simp add: length_run_hash_chain)
  qed
  have blob: "derive_key_from_blob b seed algo \<noteq> Inl InvalidKeyLength \<and>
      derive_key_from_blob b seed algo \<noteq> Inl InvalidBlockLength" for b
    using derive_key_from_blob_error [of b seed algo] by blast
  then have "derive_key_from_algo module_map algo seed password_map \<noteq> Inl InvalidKeyLength \<and>
      derive_key_from_algo module_map algo seed password_map \<noteq> Inl InvalidBlockLength"
    by (simp add: derive_key_from_algo_def Let_def split: option.splits)
  with lengths blob show ?thesis
    by blast
qed

theorem length_errors_unreachable_witness:
  "parse_password_blob sample_blob = Inr sample_record \<and> (0x87 :: int) = algo_id sample_record \<and>
   length sample_seed = 5 \<and> min_seed sample_record \<le> 255 - uint (sample_seed ! 4) \<and>
   length (take 16 (run_hash_chain (secret sample_record)
     (255 - uint (sample_seed ! 4) - min_seed sample_record))) = 16 \<and>
   length (take 11 (replicate 16 (0xFF :: byte)) @ sample_seed @ drop 16 (replicate 16 (0xFF :: byte)))
     = 16"
proof -
  have h: "parse_password_blob sample_blob = Inr sample_record \<and>
      (0x87 :: int) = algo_id sample_record \<and>
      length sample_seed = 5 \<and> min_seed sample_record \<le> 255 - uint (sample_seed ! 4)"
    by (simp add: parse_sample_blob sample_record_fields sample_seed_def)
  from length_errors_unreachable [of sample_blob "0x87" sample_seed] h
  have "length (take 16 (run_hash_chain (secret sample_record)
      (255 - uint (sample_seed ! 4) - min_seed sample_record))) = 16 \<and>
    length (take 11 (replicate 16 (0xFF :: byte)) @ sample_seed @ drop 16 (replicate 16 (0xFF :: byte)))
      = 16"
    by blast
  with h show ?thesis
    by blast
qed

text \<open>
  C9. \<open>derive_key_from_algo\<close> is deterministic. The only state the code reads besides its
  arguments is the module's dictionary, and only when no registry is passed. Two calls with
  the same algorithm id, the same seed bytes and the same registry return the same result,
  the same triple (mac, iterations, aes_key) or the same error, whatever the module's
  dictionary holds at either call; and a call without a registry returns what the call with
  the module's dictionary as the registry returns.
\<close>

theorem derive_key_from_algo_deterministic:
  assumes "algo = algo'" and "seed = seed'" and "registry = registry'"
  shows "derive_key_from_algo module_map algo seed (Some registry) =
           derive_key_from_algo module_map' algo' seed' (Some registry') \<and>
         derive_key_from_algo module_map algo seed None =
           derive_key_from_algo module_map' algo' seed' (Some module_map)"
  using assms by (simp add: derive_key_from_algo_def)

text \<open>The witness: the spec's scenario, algorithm 0x87 with the seed 8C E7 D1 FD 06, called
  once while the module's dictionary is empty and once while it holds the table; both calls
  return the MAC EF C9 7C A6 A6 after 4 iterations.\<close>

theorem derive_key_from_algo_deterministic_witness:
  "derive_key_from_algo Map.empty 0x87 sample_seed (Some [0x87 \<mapsto> sample_blob]) =
     derive_key_from_algo (map_of PASSWORD_MAP) 0x87 sample_seed (Some [0x87 \<mapsto> sample_blob]) \<and>
   derive_key_from_algo (map_of PASSWORD_MAP) 0x87 sample_seed (Some [0x87 \<mapsto> sample_blob]) =
     Inr ([0xEF, 0xC9, 0x7C, 0xA6, 0xA6], 4,
          [223, 127, 100, 210, 221, 218, 193, 161, 143, 27, 77, 74, 25, 22, 16, 249])"
proof -
  have "sample_blob \<noteq> []"
    by (simp add: sample_blob_def)
  then have "derive_key_from_algo (map_of PASSWORD_MAP) 0x87 sample_seed
      (Some [0x87 \<mapsto> sample_blob]) =
    Inr ([0xEF, 0xC9, 0x7C, 0xA6, 0xA6], 4,
         [223, 127, 100, 210, 221, 218, 193, 161, 143, 27, 77, 74, 25, 22, 16, 249])"
    by (simp add: derive_key_from_algo_def derive_sample)
  with derive_key_from_algo_deterministic [OF refl refl refl, THEN conjunct1,
      of Map.empty "0x87" sample_seed "[0x87 \<mapsto> sample_blob]" "map_of PASSWORD_MAP"]
  show ?thesis
    by (intro conjI)
qed




end
